theory Spec2Isabelle
  imports Complex_Main
begin

section \<open>Environment lookups (env.py)\<close>

text \<open>
  The process environment, read after \<open>int(...)\<close> has parsed the variable's text:
  a variable is either absent (\<open>None\<close>) or holds an integer. Each lookup supplies the
  default of the source when the variable is absent.
\<close>

record environ =
  WORLD_SIZE :: "int option"
  RANK :: "int option"
  LOCAL_RANK :: "int option"
  LOCAL_SIZE :: "int option"
  AUTO_TUNE_SERVER_ADDR :: "string option"

definition get_world_size :: "environ \<Rightarrow> int" where
  "get_world_size e = (case WORLD_SIZE e of None \<Rightarrow> 1 | Some v \<Rightarrow> v)"

definition get_rank :: "environ \<Rightarrow> int" where
  "get_rank e = (case RANK e of None \<Rightarrow> 0 | Some v \<Rightarrow> v)"

definition get_local_rank :: "environ \<Rightarrow> int" where
  "get_local_rank e = (case LOCAL_RANK e of None \<Rightarrow> 0 | Some v \<Rightarrow> v)"

definition get_local_size :: "environ \<Rightarrow> int" where
  "get_local_size e = (case LOCAL_SIZE e of None \<Rightarrow> 1 | Some v \<Rightarrow> v)"

definition get_autotune_server_addr :: "environ \<Rightarrow> string option" where
  "get_autotune_server_addr e = AUTO_TUNE_SERVER_ADDR e"

section \<open>Data of communication.py\<close>

text \<open>Exceptions the module can raise, as values.\<close>

datatype error =
    RepeatedInitializationError
  | ValueError
  | IndexError
  | ZeroDivisionError
  | AssertionError
  | AttributeError
  | RuntimeError

text \<open>
  A call returns a value, raises, or never returns: the rendezvous store's \<open>get\<close> waits
  until the key exists, so a key that no peer ever publishes is the outcome \<open>Blocked\<close>
  when the store waits without limit.
\<close>

datatype 'a result = Return 'a | Raise error | Blocked

text \<open>A \<open>torch.cuda.Stream\<close>, identified with its handle \<open>stream.cuda_stream\<close>.\<close>

type_synonym stream = nat

text \<open>
  The rendezvous stores the module uses: \<open>dist.FileStore(path, world_size)\<close> and the
  default store of \<open>torch.distributed\<close>.
\<close>

datatype store = FileStore string int | DefaultStore

text \<open>\<open>B.BaguaSingleCommunicatorPy\<close> with the attribute \<open>cuda_stream\<close> the module adds.\<close>

record communicator =
  comm_rank :: int
  comm_nranks :: int
  comm_device_id :: int
  stream_ptr :: stream
  nccl_unique_id_str :: string
  cuda_stream :: stream

record backend =
  schedule_channel_cap :: int
  backend_device_id :: int

record BaguaGlobalState =
  gs_backend :: backend
  gs_stream :: stream
  gs_store :: "store option"
  hyperparameters_service_client :: "string option"
  internode_communicator :: "communicator option"
  intranode_communicator :: communicator
  global_communicator :: communicator

text \<open>Device work that is enqueued on a stream.\<close>

datatype devop =
    OpFlatten
  | OpBroadcast int
  | OpAllreduce
  | OpDivide int
  | OpCopy nat

text \<open>
  The effects of the module on the world outside the interpreter, in the order in which
  they are issued.
\<close>

datatype event =
    FileStoreCreated string int
  | DistInitProcessGroup
  | BackendCreated int int
  | StreamCreated stream
  | AutotuneClientCreated "string option"
  | UniqueIdGenerated string
  | StoreSet store string string
  | StoreGet store string
  | CommunicatorCreated communicator
  | EventRecorded stream nat
  | StreamWaitEvent stream nat
  | Enqueue stream devop
  | DeviceSynchronize

text \<open>
  The state of one process. \<open>global_state\<close> is the module variable \<open>_global_state\<close>.
  \<open>store_contents\<close> is what each rendezvous store holds as this process observes it,
  the values published by its peers included; \<open>store_timeout\<close> tells whether the
  store's \<open>get\<close> gives up after a timeout, as the stores of \<open>torch.distributed\<close> do,
  or waits without limit, as the store of the spec does; \<open>unique_ids\<close> lists the
  identifiers the transport's generator hands out, call by call; \<open>trace\<close> records the
  effects.
\<close>

record pstate =
  os_environ :: environ
  dist_is_initialized :: bool
  global_state :: "BaguaGlobalState option"
  store_contents :: "store \<Rightarrow> string \<rightharpoonup> string"
  store_timeout :: bool
  unique_ids :: "nat \<Rightarrow> string"
  ids_generated :: nat
  current_stream :: stream
  streams_created :: nat
  trace :: "event list"

definition emit :: "event list \<Rightarrow> pstate \<Rightarrow> pstate" where
  "emit evs st = st\<lparr>trace := trace st @ evs\<rparr>"

section \<open>Global state accessors\<close>

definition get_global_state :: "pstate \<Rightarrow> BaguaGlobalState option" where
  "get_global_state st = global_state st"

definition is_initialized :: "pstate \<Rightarrow> bool" where
  "is_initialized st = (global_state st \<noteq> None)"

definition get_internode_communicator :: "BaguaGlobalState \<Rightarrow> communicator option" where
  "get_internode_communicator gs = internode_communicator gs"

definition get_intranode_communicator :: "BaguaGlobalState \<Rightarrow> communicator" where
  "get_intranode_communicator gs = intranode_communicator gs"

definition get_global_communicator :: "BaguaGlobalState \<Rightarrow> communicator" where
  "get_global_communicator gs = global_communicator gs"

definition get_backend :: "BaguaGlobalState \<Rightarrow> backend" where
  "get_backend gs = gs_backend gs"

section \<open>Rendezvous: gen_nccl_unique_id\<close>

text \<open>Python's decimal rendering of an integer inside an f-string.\<close>

fun str_nat :: "nat \<Rightarrow> string" where
  "str_nat n =
     (if n < 10 then [''0123456789'' ! n]
      else str_nat (n div 10) @ [''0123456789'' ! (n mod 10)])"

declare str_nat.simps [simp del]

definition str_int :: "int \<Rightarrow> string" where
  "str_int i = (if i < 0 then CHR ''-'' # str_nat (nat (- i)) else str_nat (nat i))"

definition unique_id_key :: "string \<Rightarrow> int \<Rightarrow> string" where
  "unique_id_key comm_type root_rank = comm_type @ ''-'' @ str_int root_rank @ ''-unique_id''"

text \<open>
  \<open>c10d._get_default_store()\<close>: the store of the default process group, which exists
  once \<open>torch.distributed\<close> is initialised and is an error before.
\<close>

definition get_default_store :: "pstate \<Rightarrow> error + store" where
  "get_default_store st = (if dist_is_initialized st then Inr DefaultStore else Inl RuntimeError)"

text \<open>
  The store keeps the string the leader sets as its UTF-8 bytes and \<open>get\<close> hands the
  bytes back; \<open>str(idstr, encoding="utf-8")\<close> decodes them to the string that was set.
  Values are therefore modelled as the strings themselves. A \<open>get\<close> of a key that is
  never published raises once the store's timeout has passed, and never returns where the
  store has none.
\<close>

definition gen_nccl_unique_id ::
  "string \<Rightarrow> int \<Rightarrow> store option \<Rightarrow> pstate \<Rightarrow> string result \<times> pstate" where
  "gen_nccl_unique_id comm_type root_rank store st =
     (let key = unique_id_key comm_type root_rank in
      case (case store of None \<Rightarrow> get_default_store st | Some s \<Rightarrow> Inr s) of
        Inl e \<Rightarrow> (Raise e, st)
      | Inr s \<Rightarrow>
          if get_rank (os_environ st) = root_rank then
            (let idstr = unique_ids st (ids_generated st);
                 st1 = emit [UniqueIdGenerated idstr] (st\<lparr>ids_generated := Suc (ids_generated st)\<rparr>);
                 st2 = emit [StoreSet s key idstr]
                         (st1\<lparr>store_contents :=
                                 (store_contents st1)(s := (store_contents st1 s)(key \<mapsto> idstr))\<rparr>)
             in (Return idstr, st2))
          else
            (let st1 = emit [StoreGet s key] st in
             case store_contents st s key of
               None \<Rightarrow> (if store_timeout st then Raise RuntimeError else Blocked, st1)
             | Some idstr \<Rightarrow> (Return idstr, st1)))"

section \<open>Communicator factory\<close>

text \<open>
  The constructor \<open>B.BaguaSingleCommunicatorPy(rank, nranks, device_id, stream_ptr,
  nccl_unique_id_str)\<close> belongs to the transport; it is taken to hand back a handle with
  the attributes it was given. The module then sets \<open>comm.cuda_stream = stream\<close>.
\<close>

definition BaguaSingleCommunicatorPy ::
  "int \<Rightarrow> int \<Rightarrow> int \<Rightarrow> stream \<Rightarrow> string \<Rightarrow> pstate \<Rightarrow> communicator \<times> pstate" where
  "BaguaSingleCommunicatorPy rank nranks device_id stream nccl_unique_id st =
     (let comm = \<lparr>comm_rank = rank, comm_nranks = nranks, comm_device_id = device_id,
                  stream_ptr = stream, nccl_unique_id_str = nccl_unique_id,
                  cuda_stream = stream\<rparr>
      in (comm, emit [CommunicatorCreated comm] st))"

text \<open>
  \<open>torch.distributed.get_rank()\<close>: the rank in the default process group, and an error
  while that group is not initialised. Each factory function calls it inside the f-string
  it hands to \<open>logging.debug\<close>, which is evaluated whatever the logging level; the log
  line itself leaves nothing in the model.
\<close>

definition dist_get_rank :: "pstate \<Rightarrow> error + int" where
  "dist_get_rank st =
     (if dist_is_initialized st then Inr (get_rank (os_environ st)) else Inl RuntimeError)"

definition init_bagua_inter_communicator ::
  "stream \<Rightarrow> int \<Rightarrow> store option \<Rightarrow> int option \<Rightarrow> pstate \<Rightarrow> communicator option result \<times> pstate" where
  "init_bagua_inter_communicator stream leader_rank store device_id st =
     (let e = os_environ st;
          device_id' = (case device_id of None \<Rightarrow> get_local_rank e | Some d \<Rightarrow> d) in
      case gen_nccl_unique_id ''bagua_inter_comm'' leader_rank store st of
        (Raise err, st1) \<Rightarrow> (Raise err, st1)
      | (Blocked, st1) \<Rightarrow> (Blocked, st1)
      | (Return nccl_unique_id, st1) \<Rightarrow>
          if get_local_size e = 0 then (Raise ZeroDivisionError, st1)
          else if get_rank e mod get_local_size e \<noteq> leader_rank then (Return None, st1)
          else
            (let (comm, st2) =
                   BaguaSingleCommunicatorPy (get_rank e div get_local_size e)
                     (get_world_size e div get_local_size e) device_id' stream nccl_unique_id st1
             in case dist_get_rank st2 of
                  Inl err \<Rightarrow> (Raise err, st2)
                | Inr _ \<Rightarrow> (Return (Some comm), st2)))"

definition init_bagua_intra_communicator ::
  "stream \<Rightarrow> store option \<Rightarrow> int option \<Rightarrow> pstate \<Rightarrow> communicator result \<times> pstate" where
  "init_bagua_intra_communicator stream store device_id st =
     (let e = os_environ st;
          device_id' = (case device_id of None \<Rightarrow> get_local_rank e | Some d \<Rightarrow> d) in
      if get_local_size e = 0 then (Raise ZeroDivisionError, st)
      else
        case gen_nccl_unique_id ''bagua_intra_comm''
               (get_rank e div get_local_size e * get_local_size e) store st of
          (Raise err, st1) \<Rightarrow> (Raise err, st1)
        | (Blocked, st1) \<Rightarrow> (Blocked, st1)
        | (Return nccl_unique_id, st1) \<Rightarrow>
            (let (comm, st2) =
                   BaguaSingleCommunicatorPy (get_rank e mod get_local_size e)
                     (get_local_size e) device_id' stream nccl_unique_id st1
             in case dist_get_rank st2 of
                  Inl err \<Rightarrow> (Raise err, st2)
                | Inr _ \<Rightarrow> (Return comm, st2)))"

definition init_bagua_communicator ::
  "stream \<Rightarrow> store option \<Rightarrow> int option \<Rightarrow> pstate \<Rightarrow> communicator result \<times> pstate" where
  "init_bagua_communicator stream store device_id st =
     (let e = os_environ st;
          device_id' = (case device_id of None \<Rightarrow> get_local_rank e | Some d \<Rightarrow> d) in
      case gen_nccl_unique_id ''bagua_global_comm'' 0 store st of
        (Raise err, st1) \<Rightarrow> (Raise err, st1)
      | (Blocked, st1) \<Rightarrow> (Blocked, st1)
      | (Return nccl_unique_id, st1) \<Rightarrow>
          (let (comm, st2) =
                 BaguaSingleCommunicatorPy (get_rank e) (get_world_size e) device_id' stream
                   nccl_unique_id st1
           in case dist_get_rank st2 of
                Inl err \<Rightarrow> (Raise err, st2)
              | Inr _ \<Rightarrow> (Return comm, st2)))"

section \<open>Bootstrap: BaguaGlobalState and init_process_group\<close>

text \<open>
  \<open>BaguaGlobalState.__init__\<close>. The backend, the stream and the autotune client are
  objects of other packages: the model keeps the arguments they are built from and
  records their creation. The attribute \<open>hyperparameters\<close> is a constant default
  object and carries no data here.
\<close>

definition BaguaGlobalState_init ::
  "store option \<Rightarrow> int option \<Rightarrow> pstate \<Rightarrow> BaguaGlobalState result \<times> pstate" where
  "BaguaGlobalState_init store device_id st =
     (let e = os_environ st;
          device_id' = (case device_id of None \<Rightarrow> get_local_rank e | Some d \<Rightarrow> d);
          backend = \<lparr>schedule_channel_cap = 100, backend_device_id = device_id'\<rparr>;
          st1 = emit [BackendCreated 100 device_id'] st;
          stream = Suc (streams_created st1);
          st2 = emit [StreamCreated stream] (st1\<lparr>streams_created := Suc (streams_created st1)\<rparr>);
          client = get_autotune_server_addr e;
          st3 = emit [AutotuneClientCreated client] st2
      in
      case init_bagua_inter_communicator stream 0 store (Some device_id') st3 of
        (Raise err, st4) \<Rightarrow> (Raise err, st4)
      | (Blocked, st4) \<Rightarrow> (Blocked, st4)
      | (Return internode, st4) \<Rightarrow>
          (case init_bagua_intra_communicator stream store (Some device_id') st4 of
             (Raise err, st5) \<Rightarrow> (Raise err, st5)
           | (Blocked, st5) \<Rightarrow> (Blocked, st5)
           | (Return intranode, st5) \<Rightarrow>
               (case init_bagua_communicator stream store (Some device_id') st5 of
                  (Raise err, st6) \<Rightarrow> (Raise err, st6)
                | (Blocked, st6) \<Rightarrow> (Blocked, st6)
                | (Return glob, st6) \<Rightarrow>
                    (Return \<lparr>gs_backend = backend, gs_stream = stream, gs_store = store,
                             hyperparameters_service_client = client,
                             internode_communicator = internode,
                             intranode_communicator = intranode,
                             global_communicator = glob\<rparr>, st6))))"

text \<open>
  Python's \<open>s.split(sep)\<close> for a non-empty separator: the pieces between the
  occurrences of \<open>sep\<close>, found from the left without overlap. \<open>acc\<close> holds the
  current piece, reversed.
\<close>

fun split_acc :: "string \<Rightarrow> string \<Rightarrow> string \<Rightarrow> string list" where
  "split_acc sep acc [] = [rev acc]"
| "split_acc sep acc (c # cs) =
     (if sep \<noteq> [] \<and> take (length sep) (c # cs) = sep
      then rev acc # split_acc sep [] (drop (length sep - 1) cs)
      else split_acc sep (c # acc) cs)"

definition split_str :: "string \<Rightarrow> string \<Rightarrow> string list" where
  "split_str s sep = split_acc sep [] s"

text \<open>
  \<open>init_process_group\<close>. \<open>torch.distributed.init_process_group\<close> belongs to PyTorch; the
  model takes it to succeed and to leave the default process group initialised.
\<close>

definition init_process_group :: "string \<Rightarrow> int option \<Rightarrow> pstate \<Rightarrow> unit result \<times> pstate" where
  "init_process_group init_method device_id st =
     (if is_initialized st then (Raise RepeatedInitializationError, st)
      else
        case split_str init_method ''://'' of
          [] \<Rightarrow> (Raise IndexError, st)
        | m0 # rest \<Rightarrow>
            if m0 \<notin> set [''dist'', ''file''] then (Raise ValueError, st)
            else
              (case (if m0 = ''file'' then
                       (case rest of
                          [] \<Rightarrow> (Raise IndexError, st)
                        | m1 # _ \<Rightarrow>
                            (Return (FileStore m1 (get_world_size (os_environ st))),
                             emit [FileStoreCreated m1 (get_world_size (os_environ st))] st))
                     else
                       (let st1 = (if \<not> dist_is_initialized st
                                   then emit [DistInitProcessGroup] (st\<lparr>dist_is_initialized := True\<rparr>)
                                   else st)
                        in case get_default_store st1 of
                             Inl err \<Rightarrow> (Raise err, st1)
                           | Inr s \<Rightarrow> (Return s, st1))) of
                 (Raise err, st1) \<Rightarrow> (Raise err, st1)
               | (Blocked, st1) \<Rightarrow> (Blocked, st1)
               | (Return store, st1) \<Rightarrow>
                   (case BaguaGlobalState_init (Some store) device_id st1 of
                      (Raise err, st2) \<Rightarrow> (Raise err, st2)
                    | (Blocked, st2) \<Rightarrow> (Blocked, st2)
                    | (Return gs, st2) \<Rightarrow> (Return (), st2\<lparr>global_state := Some gs\<rparr>))))"

section \<open>Tensors and device memory\<close>

datatype device = CPU | CUDA nat

text \<open>The element types of a \<open>torch.Tensor\<close>.\<close>

datatype dtype =
    Float16 | BFloat16 | Float32 | Float64
  | UInt8 | Int8 | Int16 | Int32 | Int64 | Bool

definition is_floating_point :: "dtype \<Rightarrow> bool" where
  "is_floating_point d = (d \<in> set [Float16, BFloat16, Float32, Float64])"

text \<open>
  Memory is a list of storages; a storage is the list of its elements and its address is
  its index. Elements are values of one type \<open>'a\<close> whatever the \<open>dtype\<close>: numbers with
  exact arithmetic. A tensor is a view of a storage: the storage \<open>data_ptr()\<close> points
  into, the offset of the first element, the shape and the strides.
\<close>

type_synonym 'a memory = "'a list list"

record tensor =
  device :: device
  dtype :: dtype
  storage :: nat
  storage_offset :: nat
  shape :: "nat list"
  stride :: "nat list"

definition numel :: "tensor \<Rightarrow> nat" where
  "numel t = prod_list (shape t)"

text \<open>
  The places of the elements of a view, relative to its first element, in row-major
  order of the indices.
\<close>

fun offsets :: "nat list \<Rightarrow> nat list \<Rightarrow> nat list" where
  "offsets [] strides = [0]"
| "offsets (n # sizes) [] = []"
| "offsets (n # sizes) (s # strides) =
     concat (map (\<lambda>i. map (\<lambda>p. i * s + p) (offsets sizes strides)) [0..<n])"

definition element_positions :: "tensor \<Rightarrow> nat list" where
  "element_positions t = map (\<lambda>p. storage_offset t + p) (offsets (shape t) (stride t))"

text \<open>
  The buffer a descriptor \<open>B.BaguaTensorPy(ptr=t.data_ptr(), num_elem=t.numel(), ...)\<close>
  names: \<open>numel\<close> consecutive places of the storage, from the tensor's first element.
\<close>

definition buffer_positions :: "tensor \<Rightarrow> nat list" where
  "buffer_positions t = [storage_offset t..<storage_offset t + numel t]"


definition read_at :: "nat list \<Rightarrow> 'a list \<Rightarrow> 'a list" where
  "read_at ps s = map (\<lambda>p. s ! p) ps"

fun write_at :: "nat list \<Rightarrow> 'a list \<Rightarrow> 'a list \<Rightarrow> 'a list" where
  "write_at (p # ps) (v # vs) s = write_at ps vs (s[p := v])"
| "write_at ps vs s = s"

definition elements :: "'a memory \<Rightarrow> tensor \<Rightarrow> 'a list" where
  "elements mem t = read_at (element_positions t) (mem ! storage t)"

definition write_elements :: "'a memory \<Rightarrow> tensor \<Rightarrow> 'a list \<Rightarrow> 'a memory" where
  "write_elements mem t vals =
     mem[storage t := write_at (element_positions t) vals (mem ! storage t)]"

definition buffer :: "'a memory \<Rightarrow> tensor \<Rightarrow> 'a list" where
  "buffer mem t = read_at (buffer_positions t) (mem ! storage t)"

definition write_buffer :: "'a memory \<Rightarrow> tensor \<Rightarrow> 'a list \<Rightarrow> 'a memory" where
  "write_buffer mem t vals =
     mem[storage t := write_at (buffer_positions t) vals (mem ! storage t)]"


definition in_memory :: "'a memory \<Rightarrow> tensor \<Rightarrow> bool" where
  "in_memory mem t =
     (storage t < length mem \<and>
      list_all (\<lambda>p. p < length (mem ! storage t)) (element_positions t) \<and>
      list_all (\<lambda>p. p < length (mem ! storage t)) (buffer_positions t))"



text \<open>
  \<open>tensor /= n\<close> for a Python integer \<open>n\<close>: true division in place. PyTorch refuses it
  for a tensor whose element type is not a floating-point type (the quotient's type
  cannot be cast back) and raises RuntimeError. The quotients are those of exact
  arithmetic for a divisor other than 0, the only ones the theorems below rely on.
\<close>

definition div_inplace :: "tensor \<Rightarrow> int \<Rightarrow> 'a::field memory \<Rightarrow> error + 'a memory" where
  "div_inplace t n mem =
     (if is_floating_point (dtype t)
      then Inr (write_elements mem t (map (\<lambda>x. x / of_int n) (elements mem t)))
      else Inl RuntimeError)"

text \<open>\<open>buf.copy_(synced)\<close>: the elements of \<open>synced\<close> overwrite those of \<open>buf\<close>.\<close>

definition tensor_copy :: "tensor \<Rightarrow> tensor \<Rightarrow> 'a memory \<Rightarrow> 'a memory" where
  "tensor_copy buf synced mem = write_elements mem buf (elements mem synced)"

section \<open>The coalescer\<close>

text \<open>
  Modelled from the spec: \<open>flatten\<close> of the module \<open>utils\<close>, which is not among the
  sources. It copies each tensor's elements, in input order, into its offset range of one
  newly allocated contiguous buffer, the offsets being the prefix sums of the element
  counts; tensors of mixed element types are rejected. The spec names no exception for
  the rejection and fixes no buffer for the empty list, which has no element type; the
  model raises RuntimeError for both.
\<close>

definition flatten :: "tensor list \<Rightarrow> 'a memory \<Rightarrow> error + tensor \<times> 'a memory" where
  "flatten tensors mem =
     (case tensors of
        [] \<Rightarrow> Inl RuntimeError
      | t # ts \<Rightarrow>
          if list_ex (\<lambda>u. dtype u \<noteq> dtype t) ts then Inl RuntimeError
          else Inr (\<lparr>device = device t, dtype = dtype t, storage = length mem,
                     storage_offset = 0, shape = [sum_list (map numel tensors)],
                     stride = [1]\<rparr>,
                    mem @ [concat (map (elements mem) tensors)]))"

text \<open>The strides of a contiguous tensor of a given shape.\<close>

fun contiguous_strides :: "nat list \<Rightarrow> nat list" where
  "contiguous_strides [] = []"
| "contiguous_strides (n # sizes) = prod_list sizes # contiguous_strides sizes"

text \<open>
  Modelled from the spec: \<open>unflatten\<close> of the module \<open>utils\<close>, which is not among the
  sources. Given the same ordered tensor list it yields, per tensor, the view of the flat
  buffer at the same prefix offset, with that tensor's element count and shape.
\<close>

fun unflatten_from :: "nat \<Rightarrow> tensor \<Rightarrow> tensor list \<Rightarrow> tensor list" where
  "unflatten_from offset flat [] = []"
| "unflatten_from offset flat (t # ts) =
     flat\<lparr>storage_offset := storage_offset flat + offset, shape := shape t,
          stride := contiguous_strides (shape t)\<rparr>
     # unflatten_from (offset + numel t) flat ts"

definition unflatten :: "tensor \<Rightarrow> tensor list \<Rightarrow> tensor list" where
  "unflatten flat tensors = unflatten_from 0 flat tensors"

section \<open>Collective operations\<close>

text \<open>
  What the collectives call in code that is not among the sources. \<open>to_bagua_datatype\<close>
  (module \<open>utils\<close>) gives the transport's code for an element type, or raises for a type
  it does not know. The transport's \<open>comm.broadcast(b, root)\<close> and \<open>comm.allreduce(b)\<close>
  work in place on the buffer a descriptor names: each maps the elements of that buffer
  before the call to its elements after it.
\<close>

record 'a externals =
  to_bagua_datatype :: "dtype \<Rightarrow> error + string"
  transport_broadcast :: "communicator \<Rightarrow> int \<Rightarrow> 'a list \<Rightarrow> 'a list"
  transport_allreduce :: "communicator \<Rightarrow> 'a list \<Rightarrow> 'a list"

text \<open>
  \<open>if comm is None: comm = _get_global_state().get_global_communicator()\<close>; calling the
  method on an absent global state is an AttributeError.
\<close>

definition comm_or_global :: "communicator option \<Rightarrow> pstate \<Rightarrow> error + communicator" where
  "comm_or_global comm st =
     (case comm of
        Some c \<Rightarrow> Inr c
      | None \<Rightarrow>
          (case get_global_state st of
             None \<Rightarrow> Inl AttributeError
           | Some gs \<Rightarrow> Inr (get_global_communicator gs)))"

text \<open>
  The scatter loop \<open>for buf, synced in zip(tensors, unflatten(...)): buf.copy_(synced)\<close>,
  issued on stream \<open>s\<close>; \<open>i\<close> counts the pairs.
\<close>

fun copy_back ::
  "stream \<Rightarrow> nat \<Rightarrow> (tensor \<times> tensor) list \<Rightarrow> 'a memory \<Rightarrow> pstate \<Rightarrow> 'a memory \<times> pstate" where
  "copy_back s i [] mem st = (mem, st)"
| "copy_back s i ((buf, synced) # rest) mem st =
     copy_back s (Suc i) rest (tensor_copy buf synced mem) (emit [Enqueue s (OpCopy i)] st)"

text \<open>
  The four entry points. They return nothing and work in place: the model hands back the
  memory and the process state they leave. Inside \<open>with torch.cuda.stream(comm.cuda_stream)\<close>
  the current stream is \<open>comm.cuda_stream\<close>, so the work issued there is enqueued on that
  stream. The arguments of the descriptor are evaluated before the transport is called,
  so an element type that \<open>to_bagua_datatype\<close> refuses raises before the collective. An
  exception leaves the function at once: nothing after it is issued.
\<close>

definition broadcast_coalesced ::
  "'a externals \<Rightarrow> tensor list \<Rightarrow> int \<Rightarrow> communicator option \<Rightarrow> 'a memory \<Rightarrow> pstate
     \<Rightarrow> unit result \<times> 'a memory \<times> pstate" where
  "broadcast_coalesced ext tensors root_rank comm mem st =
     (if list_ex (\<lambda>t. device t = CPU) tensors then (Raise AssertionError, mem, st)
      else
        case comm_or_global comm st of
          Inl err \<Rightarrow> (Raise err, mem, st)
        | Inr c \<Rightarrow>
            (let event = length (trace st);
                 st1 = emit [EventRecorded (current_stream st) event] st;
                 st2 = emit [StreamWaitEvent (cuda_stream c) event] st1
             in case flatten tensors mem of
                  Inl err \<Rightarrow> (Raise err, mem, st2)
                | Inr (coalesced, mem1) \<Rightarrow>
                    (let st3 = emit [Enqueue (cuda_stream c) OpFlatten] st2
                     in case to_bagua_datatype ext (dtype coalesced) of
                          Inl err \<Rightarrow> (Raise err, mem1, st3)
                        | Inr code \<Rightarrow>
                            (let mem2 = write_buffer mem1 coalesced
                                          (transport_broadcast ext c root_rank (buffer mem1 coalesced));
                                 st4 = emit [Enqueue (cuda_stream c) (OpBroadcast root_rank)] st3;
                                 (mem3, st5) =
                                   copy_back (cuda_stream c) 0
                                     (zip tensors (unflatten coalesced tensors)) mem2 st4;
                                 st6 = emit [DeviceSynchronize] st5
                             in (Return (), mem3, st6)))))"

definition broadcast ::
  "'a externals \<Rightarrow> tensor \<Rightarrow> int \<Rightarrow> communicator option \<Rightarrow> 'a memory \<Rightarrow> pstate
     \<Rightarrow> unit result \<times> 'a memory \<times> pstate" where
  "broadcast ext tensor root_rank comm mem st =
     (if device tensor = CPU then (Raise AssertionError, mem, st)
      else
        case comm_or_global comm st of
          Inl err \<Rightarrow> (Raise err, mem, st)
        | Inr c \<Rightarrow>
            (let event = length (trace st);
                 st1 = emit [EventRecorded (current_stream st) event] st;
                 st2 = emit [StreamWaitEvent (cuda_stream c) event] st1
             in case to_bagua_datatype ext (dtype tensor) of
                  Inl err \<Rightarrow> (Raise err, mem, st2)
                | Inr code \<Rightarrow>
                    (let mem1 = write_buffer mem tensor
                                  (transport_broadcast ext c root_rank (buffer mem tensor));
                         st3 = emit [Enqueue (cuda_stream c) (OpBroadcast root_rank)] st2;
                         st4 = emit [DeviceSynchronize] st3
                     in (Return (), mem1, st4))))"

definition allreduce_coalesced ::
  "'a::field externals \<Rightarrow> tensor list \<Rightarrow> communicator option \<Rightarrow> bool \<Rightarrow> 'a memory \<Rightarrow> pstate
     \<Rightarrow> unit result \<times> 'a memory \<times> pstate" where
  "allreduce_coalesced ext tensors comm average mem st =
     (if list_ex (\<lambda>t. device t = CPU) tensors then (Raise AssertionError, mem, st)
      else
        case comm_or_global comm st of
          Inl err \<Rightarrow> (Raise err, mem, st)
        | Inr c \<Rightarrow>
            (let event = length (trace st);
                 st1 = emit [EventRecorded (current_stream st) event] st;
                 st2 = emit [StreamWaitEvent (cuda_stream c) event] st1
             in case flatten tensors mem of
                  Inl err \<Rightarrow> (Raise err, mem, st2)
                | Inr (coalesced, mem1) \<Rightarrow>
                    (let st3 = emit [Enqueue (cuda_stream c) OpFlatten] st2
                     in case to_bagua_datatype ext (dtype coalesced) of
                          Inl err \<Rightarrow> (Raise err, mem1, st3)
                        | Inr code \<Rightarrow>
                            (let mem2 = write_buffer mem1 coalesced
                                          (transport_allreduce ext c (buffer mem1 coalesced));
                                 st4 = emit [Enqueue (cuda_stream c) OpAllreduce] st3
                             in case (if average then div_inplace coalesced (comm_nranks c) mem2
                                      else Inr mem2) of
                                  Inl err \<Rightarrow> (Raise err, mem2, st4)
                                | Inr mem3 \<Rightarrow>
                                    (let st5 = (if average
                                                then emit [Enqueue (cuda_stream c)
                                                             (OpDivide (comm_nranks c))] st4
                                                else st4);
                                         (mem4, st6) =
                                           copy_back (cuda_stream c) 0
                                             (zip tensors (unflatten coalesced tensors)) mem3 st5;
                                         st7 = emit [DeviceSynchronize] st6
                                     in (Return (), mem4, st7))))))"

definition allreduce ::
  "'a::field externals \<Rightarrow> tensor \<Rightarrow> communicator option \<Rightarrow> bool \<Rightarrow> 'a memory \<Rightarrow> pstate
     \<Rightarrow> unit result \<times> 'a memory \<times> pstate" where
  "allreduce ext tensor comm average mem st =
     (if device tensor = CPU then (Raise AssertionError, mem, st)
      else
        case comm_or_global comm st of
          Inl err \<Rightarrow> (Raise err, mem, st)
        | Inr c \<Rightarrow>
            (let event = length (trace st);
                 st1 = emit [EventRecorded (current_stream st) event] st;
                 st2 = emit [StreamWaitEvent (cuda_stream c) event] st1
             in case to_bagua_datatype ext (dtype tensor) of
                  Inl err \<Rightarrow> (Raise err, mem, st2)
                | Inr code \<Rightarrow>
                    (let mem1 = write_buffer mem tensor
                                  (transport_allreduce ext c (buffer mem tensor));
                         st3 = emit [Enqueue (cuda_stream c) OpAllreduce] st2
                     in case (if average then div_inplace tensor (comm_nranks c) mem1
                              else Inr mem1) of
                          Inl err \<Rightarrow> (Raise err, mem1, st3)
                        | Inr mem2 \<Rightarrow>
                            (let st4 = (if average
                                        then emit [Enqueue (cuda_stream c)
                                                     (OpDivide (comm_nranks c))] st3
                                        else st3);
                                 st5 = emit [DeviceSynchronize] st4
                             in (Return (), mem2, st5)))))"

text \<open>
  The memory the scatter loop leaves, without its trace: the copies in the order of the
  list.
\<close>

fun scatter :: "(tensor \<times> tensor) list \<Rightarrow> 'a memory \<Rightarrow> 'a memory" where
  "scatter [] mem = mem"
| "scatter ((buf, synced) # rest) mem = scatter rest (tensor_copy buf synced mem)"

section \<open>The stream discipline of the spec\<close>


section \<open>Example configurations\<close>

text \<open>
  Concrete processes, communicators and tensors on which the theorems below are
  instantiated. \<open>rank_env W L r\<close> is the environment of rank \<open>r\<close> in a world of \<open>W\<close>
  processes with \<open>L\<close> processes per node.
\<close>

definition rank_env :: "int \<Rightarrow> int \<Rightarrow> int \<Rightarrow> environ" where
  "rank_env W L r =
     \<lparr>WORLD_SIZE = Some W, RANK = Some r, LOCAL_RANK = Some (r mod L), LOCAL_SIZE = Some L,
      AUTO_TUNE_SERVER_ADDR = None\<rparr>"

definition fresh_process :: "environ \<Rightarrow> (string \<rightharpoonup> string) \<Rightarrow> pstate" where
  "fresh_process e kv =
     \<lparr>os_environ = e, dist_is_initialized = False, global_state = None,
      store_contents = (\<lambda>_. kv), store_timeout = False,
      unique_ids = (\<lambda>n. ''uid'' @ str_nat n), ids_generated = 0,
      current_stream = 0, streams_created = 0, trace = []\<rparr>"

definition dist_process :: "environ \<Rightarrow> (string \<rightharpoonup> string) \<Rightarrow> pstate" where
  "dist_process e kv = (fresh_process e kv)\<lparr>dist_is_initialized := True\<rparr>"

definition example_comm :: "int \<Rightarrow> int \<Rightarrow> communicator" where
  "example_comm r n =
     \<lparr>comm_rank = r, comm_nranks = n, comm_device_id = 0, stream_ptr = 1,
      nccl_unique_id_str = ''uid0'', cuda_stream = 1\<rparr>"

definition initialized_process :: "int \<Rightarrow> int \<Rightarrow> pstate" where
  "initialized_process W r =
     (fresh_process (rank_env W 1 r) Map.empty)
       \<lparr>global_state :=
          Some \<lparr>gs_backend = \<lparr>schedule_channel_cap = 100, backend_device_id = 0\<rparr>,
                gs_stream = 1, gs_store = Some DefaultStore,
                hyperparameters_service_client = None,
                internode_communicator = Some (example_comm r W),
                intranode_communicator = example_comm 0 1,
                global_communicator = example_comm r W\<rparr>\<rparr>"

definition gpu_tensor :: "dtype \<Rightarrow> nat \<Rightarrow> nat \<Rightarrow> nat list \<Rightarrow> nat list \<Rightarrow> tensor" where
  "gpu_tensor ty a off sh strides =
     \<lparr>device = CUDA 0, dtype = ty, storage = a, storage_offset = off, shape = sh,
      stride = strides\<rparr>"

definition cpu_tensor :: "dtype \<Rightarrow> nat \<Rightarrow> nat \<Rightarrow> nat list \<Rightarrow> nat list \<Rightarrow> tensor" where
  "cpu_tensor ty a off sh strides =
     \<lparr>device = CPU, dtype = ty, storage = a, storage_offset = off, shape = sh,
      stride = strides\<rparr>"

text \<open>
  Modelled from the spec: a transport for a group whose members hand it the buffers
  \<open>bufs\<close>, in rank order; the transport itself is not among the sources. Its broadcast
  delivers the buffer of the source rank and its all-reduce the element-wise sum of all
  members' buffers. It knows every element type.
\<close>

definition group_transport :: "'a::comm_monoid_add list list \<Rightarrow> 'a externals" where
  "group_transport bufs =
     \<lparr>to_bagua_datatype = (\<lambda>ty. Inr ''dtype''),
      transport_broadcast =
        (\<lambda>c root_rank own.
           let contributions = bufs[nat (comm_rank c) := own]
           in if 0 \<le> root_rank \<and> nat root_rank < length contributions then contributions ! nat root_rank else own),
      transport_allreduce =
        (\<lambda>c own.
           let contributions = bufs[nat (comm_rank c) := own]
           in map (\<lambda>j. sum_list (map (\<lambda>b. b ! j) contributions)) [0..<length own])\<rparr>"

section \<open>Basic facts about the model\<close>

lemma trace_emit [simp]: "trace (emit evs st) = trace st @ evs"
  by (simp add: emit_def)

lemma emit_fields [simp]:
  "os_environ (emit evs st) = os_environ st"
  "global_state (emit evs st) = global_state st"
  "store_contents (emit evs st) = store_contents st"
  "store_timeout (emit evs st) = store_timeout st"
  "dist_is_initialized (emit evs st) = dist_is_initialized st"
  "current_stream (emit evs st) = current_stream st"
  "ids_generated (emit evs st) = ids_generated st"
  "unique_ids (emit evs st) = unique_ids st"
  "streams_created (emit evs st) = streams_created st"
  by (simp_all add: emit_def)



section \<open>Repeated initialisation\<close>

text \<open>
  C6: when the process is already initialised, \<open>init_process_group\<close> raises
  RepeatedInitializationError and hands back the process state exactly as it was: no
  store, state object or communicator is created (the trace is unchanged) and the global
  state, with its backend, stream and three communicators, is untouched.
\<close>

theorem repeated_initialization_rejected:
  "is_initialized st \<Longrightarrow>
     init_process_group init_method device_id st = (Raise RepeatedInitializationError, st)"
  by (simp add: init_process_group_def)

theorem repeated_initialization_rejected_witness:
  "is_initialized (initialized_process 4 0) \<and>
   init_process_group ''dist://'' None (initialized_process 4 0) =
     (Raise RepeatedInitializationError, initialized_process 4 0) \<and>
   global_state (snd (init_process_group ''dist://'' None (initialized_process 4 0))) =
     global_state (initialized_process 4 0)"
proof -
  have h: "is_initialized (initialized_process 4 0)"
    by (simp add: is_initialized_def initialized_process_def)
  show ?thesis
    using h repeated_initialization_rejected [OF h, of "''dist://''" None] by simp
qed

section \<open>Reading and writing memory\<close>

lemma length_write_at [simp]: "length (write_at ps vs s) = length s"
  by (induction ps vs s rule: write_at.induct) simp_all




lemma length_read_at [simp]: "length (read_at ps s) = length ps"
  by (simp add: read_at_def)


section \<open>Places of the elements\<close>





lemma length_contiguous_strides [simp]: "length (contiguous_strides sizes) = length sizes"
  by (induction sizes) simp_all



lemma length_buffer_positions [simp]: "length (buffer_positions t) = numel t"
  by (simp add: buffer_positions_def)

lemma distinct_buffer_positions [simp]: "distinct (buffer_positions t)"
  by (simp add: buffer_positions_def)

section \<open>Elements of tensors\<close>


lemma length_write_elements [simp]: "length (write_elements mem t vs) = length mem"
  by (simp add: write_elements_def)

lemma length_write_buffer [simp]: "length (write_buffer mem t vs) = length mem"
  by (simp add: write_buffer_def)






lemma in_memory_write_buffer [simp]:
  "in_memory (write_buffer mem t vs) u = in_memory mem u"
  by (cases "storage t < length mem"; cases "storage u = storage t")
     (simp_all add: in_memory_def write_buffer_def list_update_beyond)

lemma in_memory_write_elements [simp]:
  "in_memory (write_elements mem t vs) u = in_memory mem u"
  by (cases "storage t < length mem"; cases "storage u = storage t")
     (simp_all add: in_memory_def write_elements_def list_update_beyond)

section \<open>The collectives when they return\<close>


lemma length_unflatten_from [simp]: "length (unflatten_from off flat ts) = length ts"
  by (induction ts arbitrary: off) simp_all

lemma length_unflatten [simp]: "length (unflatten flat ts) = length ts"
  by (simp add: unflatten_def)











lemma group_transport_knows [simp]: "to_bagua_datatype (group_transport bufs) ty = Inr ''dtype''"
  by (simp add: group_transport_def)

section \<open>Host-resident tensors\<close>

text \<open>
  C8: a tensor on the CPU makes each of the four collectives raise AssertionError with
  the memory and the process state unchanged, so before any event is recorded and before
  any flattening or transport call; the coalesced forms do so when any tensor of the list
  is on the CPU.
\<close>

theorem host_tensor_rejected:
  fixes mem :: "'a::field memory"
  shows
    "(device tensor = CPU \<longrightarrow>
        broadcast ext tensor root_rank comm mem st = (Raise AssertionError, mem, st) \<and>
        allreduce ext tensor comm average mem st = (Raise AssertionError, mem, st)) \<and>
     ((\<exists>t \<in> set tensors. device t = CPU) \<longrightarrow>
        broadcast_coalesced ext tensors root_rank comm mem st = (Raise AssertionError, mem, st) \<and>
        allreduce_coalesced ext tensors comm average mem st = (Raise AssertionError, mem, st))"
  by (simp add: broadcast_def allreduce_def broadcast_coalesced_def allreduce_coalesced_def
        list_ex_iff)

theorem host_tensor_rejected_witness:
  "device (cpu_tensor Float32 0 0 [1] [1]) = CPU \<and>
   broadcast (group_transport [[5], [7]]) (cpu_tensor Float32 0 0 [1] [1]) 0 None [[5::real]]
       (initialized_process 2 0) =
     (Raise AssertionError, [[5]], initialized_process 2 0) \<and>
   allreduce (group_transport [[5], [7]]) (cpu_tensor Float32 0 0 [1] [1]) None True [[5::real]]
       (initialized_process 2 0) =
     (Raise AssertionError, [[5]], initialized_process 2 0) \<and>
   (\<exists>t \<in> set [gpu_tensor Float32 0 0 [1] [1], cpu_tensor Float32 1 0 [1] [1]]. device t = CPU) \<and>
   broadcast_coalesced (group_transport [[5, 6], [7, 8]])
       [gpu_tensor Float32 0 0 [1] [1], cpu_tensor Float32 1 0 [1] [1]] 0 None [[5], [6::real]]
       (initialized_process 2 0) =
     (Raise AssertionError, [[5], [6]], initialized_process 2 0) \<and>
   allreduce_coalesced (group_transport [[5, 6], [7, 8]])
       [gpu_tensor Float32 0 0 [1] [1], cpu_tensor Float32 1 0 [1] [1]] None True [[5], [6::real]]
       (initialized_process 2 0) =
     (Raise AssertionError, [[5], [6]], initialized_process 2 0)"
proof -
  have h1: "device (cpu_tensor Float32 0 0 [1] [1]) = CPU"
    by (simp add: cpu_tensor_def)
  have h2: "\<exists>t \<in> set [gpu_tensor Float32 0 0 [1] [1], cpu_tensor Float32 1 0 [1] [1]]. device t = CPU"
    by (simp add: cpu_tensor_def)
  show ?thesis
    using h1 h2
      host_tensor_rejected [of "cpu_tensor Float32 0 0 [1] [1]" "group_transport [[5], [7]]" 0 None
        "[[5::real]]" "initialized_process 2 0" True "[]"]
      host_tensor_rejected [of "cpu_tensor Float32 0 0 [1] [1]" "group_transport [[5, 6], [7, 8]]"
        0 None "[[5], [6::real]]" "initialized_process 2 0" True
        "[gpu_tensor Float32 0 0 [1] [1], cpu_tensor Float32 1 0 [1] [1]]"]
    by simp
qed

section \<open>Stream ordering of the collectives\<close>





section \<open>Facts about the coalescer\<close>











section \<open>The scatter loop\<close>

lemma scatter_keeps_storage:
  "\<forall>p \<in> set ps. storage (fst p) \<noteq> a \<Longrightarrow> scatter ps m ! a = m ! a"
  by (induction ps m rule: scatter.induct) (simp_all add: tensor_copy_def write_elements_def)


lemma in_memory_scatter [simp]: "in_memory (scatter ps m) u = in_memory m u"
  by (induction ps m rule: scatter.induct) (simp_all add: tensor_copy_def)








section \<open>The coalescer: round trip and scatter\<close>








section \<open>All-reduce: sum, then average\<close>










section \<open>The rendezvous\<close>

lemma gen_leader:
  assumes "get_rank (os_environ st) = root_rank"
  shows "gen_nccl_unique_id comm_type root_rank (Some s) st =
     (Return (unique_ids st (ids_generated st)),
      st\<lparr>ids_generated := Suc (ids_generated st),
         store_contents :=
           (store_contents st)
             (s := (store_contents st s)
                     (unique_id_key comm_type root_rank \<mapsto> unique_ids st (ids_generated st))),
         trace := trace st @
           [UniqueIdGenerated (unique_ids st (ids_generated st)),
            StoreSet s (unique_id_key comm_type root_rank) (unique_ids st (ids_generated st))]\<rparr>)"
  using assms by (simp add: gen_nccl_unique_id_def Let_def emit_def)

lemma gen_follower:
  assumes "get_rank (os_environ st) \<noteq> root_rank"
  shows "gen_nccl_unique_id comm_type root_rank (Some s) st =
     (case store_contents st s (unique_id_key comm_type root_rank) of
        None \<Rightarrow> if store_timeout st then Raise RuntimeError else Blocked
      | Some idstr \<Rightarrow> Return idstr,
      st\<lparr>trace := trace st @ [StoreGet s (unique_id_key comm_type root_rank)]\<rparr>)"
  using assms by (simp add: gen_nccl_unique_id_def Let_def emit_def split: option.splits)

lemma str_int_0: "str_int 0 = ''0''"
  by (simp add: str_int_def str_nat.simps)

lemma fresh_process_env:
  "get_rank (os_environ (fresh_process (rank_env W L r) kv)) = r"
  "get_world_size (os_environ (fresh_process (rank_env W L r) kv)) = W"
  "get_local_size (os_environ (fresh_process (rank_env W L r) kv)) = L"
  "store_contents (fresh_process (rank_env W L r) kv) s = kv"
  "trace (fresh_process (rank_env W L r) kv) = []"
  by (simp_all add: fresh_process_def rank_env_def get_rank_def get_world_size_def
        get_local_size_def)

text \<open>
  C3: in \<open>gen_nccl_unique_id\<close>, for every purpose and leader rank, the rank equal to the
  leader generates a fresh identifier and puts it in the store under the key
  \<open>{purpose}-{root}-unique_id\<close>, and returns it; any other rank generates nothing and
  puts nothing, it gets the value stored under that same key and returns it. A rank that
  finds under the key what the leader's call left there returns the identifier the
  leader returned.
\<close>

theorem gen_nccl_unique_id_rendezvous:
  "(get_rank (os_environ st) = root_rank \<longrightarrow>
      gen_nccl_unique_id comm_type root_rank (Some s) st =
        (Return (unique_ids st (ids_generated st)),
         st\<lparr>ids_generated := Suc (ids_generated st),
            store_contents :=
              (store_contents st)
                (s := (store_contents st s)
                        (comm_type @ ''-'' @ str_int root_rank @ ''-unique_id'' \<mapsto>
                           unique_ids st (ids_generated st))),
            trace := trace st @
              [UniqueIdGenerated (unique_ids st (ids_generated st)),
               StoreSet s (comm_type @ ''-'' @ str_int root_rank @ ''-unique_id'')
                 (unique_ids st (ids_generated st))]\<rparr>)) \<and>
   (get_rank (os_environ st) \<noteq> root_rank \<and>
    store_contents st s (comm_type @ ''-'' @ str_int root_rank @ ''-unique_id'') = Some idstr \<longrightarrow>
      gen_nccl_unique_id comm_type root_rank (Some s) st =
        (Return idstr,
         st\<lparr>trace := trace st @
              [StoreGet s (comm_type @ ''-'' @ str_int root_rank @ ''-unique_id'')]\<rparr>)) \<and>
   (get_rank (os_environ leader) = root_rank \<and> get_rank (os_environ st) \<noteq> root_rank \<and>
    store_contents st s (comm_type @ ''-'' @ str_int root_rank @ ''-unique_id'') =
      store_contents (snd (gen_nccl_unique_id comm_type root_rank (Some s) leader)) s
        (comm_type @ ''-'' @ str_int root_rank @ ''-unique_id'') \<longrightarrow>
      fst (gen_nccl_unique_id comm_type root_rank (Some s) st) =
        fst (gen_nccl_unique_id comm_type root_rank (Some s) leader))"
  by (simp add: gen_leader gen_follower unique_id_key_def)

theorem gen_nccl_unique_id_rendezvous_witness:
  "get_rank (os_environ (fresh_process (rank_env 4 2 0) Map.empty)) = 0 \<and>
   fst (gen_nccl_unique_id ''bagua_inter_comm'' 0 (Some DefaultStore)
          (fresh_process (rank_env 4 2 0) Map.empty)) = Return ''uid0'' \<and>
   trace (snd (gen_nccl_unique_id ''bagua_inter_comm'' 0 (Some DefaultStore)
          (fresh_process (rank_env 4 2 0) Map.empty))) =
     [UniqueIdGenerated ''uid0'',
      StoreSet DefaultStore ''bagua_inter_comm-0-unique_id'' ''uid0''] \<and>
   store_contents (snd (gen_nccl_unique_id ''bagua_inter_comm'' 0 (Some DefaultStore)
          (fresh_process (rank_env 4 2 0) Map.empty))) DefaultStore
       ''bagua_inter_comm-0-unique_id'' = Some ''uid0'' \<and>
   get_rank (os_environ (fresh_process (rank_env 4 2 3)
       [''bagua_inter_comm-0-unique_id'' \<mapsto> ''uid0''])) \<noteq> 0 \<and>
   store_contents (fresh_process (rank_env 4 2 3) [''bagua_inter_comm-0-unique_id'' \<mapsto> ''uid0''])
       DefaultStore ''bagua_inter_comm-0-unique_id'' = Some ''uid0'' \<and>
   fst (gen_nccl_unique_id ''bagua_inter_comm'' 0 (Some DefaultStore)
          (fresh_process (rank_env 4 2 3) [''bagua_inter_comm-0-unique_id'' \<mapsto> ''uid0''])) =
     Return ''uid0'' \<and>
   trace (snd (gen_nccl_unique_id ''bagua_inter_comm'' 0 (Some DefaultStore)
          (fresh_process (rank_env 4 2 3) [''bagua_inter_comm-0-unique_id'' \<mapsto> ''uid0'']))) =
     [StoreGet DefaultStore ''bagua_inter_comm-0-unique_id''] \<and>
   fst (gen_nccl_unique_id ''bagua_inter_comm'' 0 (Some DefaultStore)
          (fresh_process (rank_env 4 2 3) [''bagua_inter_comm-0-unique_id'' \<mapsto> ''uid0''])) =
   fst (gen_nccl_unique_id ''bagua_inter_comm'' 0 (Some DefaultStore)
          (fresh_process (rank_env 4 2 0) Map.empty))"
proof -
  let ?leader = "fresh_process (rank_env 4 2 0) Map.empty"
  let ?follower = "fresh_process (rank_env 4 2 3) [''bagua_inter_comm-0-unique_id'' \<mapsto> ''uid0'']"
  have uid: "unique_ids ?leader (ids_generated ?leader) = ''uid0''"
    by (simp add: fresh_process_def str_nat.simps)
  have l: "get_rank (os_environ ?leader) = 0"
    by (simp add: fresh_process_def rank_env_def get_rank_def)
  have f: "get_rank (os_environ ?follower) \<noteq> 0"
    by (simp add: fresh_process_def rank_env_def get_rank_def)
  have k: "store_contents ?follower DefaultStore ''bagua_inter_comm-0-unique_id'' = Some ''uid0''"
    by (simp add: fresh_process_def)
  have t: "trace ?leader = []" "trace ?follower = []"
    by (simp_all add: fresh_process_def)
  show ?thesis
    using l f k
      gen_nccl_unique_id_rendezvous [of ?leader 0 "''bagua_inter_comm''" DefaultStore "''uid0''" ?leader]
      gen_nccl_unique_id_rendezvous [of ?follower 0 "''bagua_inter_comm''" DefaultStore "''uid0''" ?leader]
    by (simp add: uid str_int_0 t)
qed

section \<open>The inter-node communicator\<close>

lemma dist_process_env:
  "get_rank (os_environ (dist_process (rank_env W L r) kv)) = r"
  "get_world_size (os_environ (dist_process (rank_env W L r) kv)) = W"
  "get_local_size (os_environ (dist_process (rank_env W L r) kv)) = L"
  "store_contents (dist_process (rank_env W L r) kv) s = kv"
  "trace (dist_process (rank_env W L r) kv) = []"
  "dist_is_initialized (dist_process (rank_env W L r) kv)"
  by (simp_all add: dist_process_def fresh_process_env)

lemma inter_leader:
  assumes "get_rank (os_environ st) = leader_rank"
  shows "fst (init_bagua_inter_communicator stream leader_rank (Some s) device_id st) =
     (if get_local_size (os_environ st) = 0 then Raise ZeroDivisionError
      else if get_rank (os_environ st) mod get_local_size (os_environ st) \<noteq> leader_rank
      then Return None
      else if \<not> dist_is_initialized st then Raise RuntimeError
      else Return (Some
        \<lparr>comm_rank = get_rank (os_environ st) div get_local_size (os_environ st),
         comm_nranks = get_world_size (os_environ st) div get_local_size (os_environ st),
         comm_device_id = (case device_id of None \<Rightarrow> get_local_rank (os_environ st) | Some d \<Rightarrow> d),
         stream_ptr = stream,
         nccl_unique_id_str = unique_ids st (ids_generated st),
         cuda_stream = stream\<rparr>))"
  by (simp add: init_bagua_inter_communicator_def Let_def gen_leader [OF assms]
        BaguaSingleCommunicatorPy_def dist_get_rank_def)

lemma inter_follower:
  assumes "get_rank (os_environ st) \<noteq> leader_rank"
  shows "init_bagua_inter_communicator stream leader_rank (Some s) device_id st =
     (case store_contents st s (unique_id_key ''bagua_inter_comm'' leader_rank) of
        None \<Rightarrow> (if store_timeout st then Raise RuntimeError else Blocked,
                 st\<lparr>trace := trace st @ [StoreGet s (unique_id_key ''bagua_inter_comm'' leader_rank)]\<rparr>)
      | Some idstr \<Rightarrow>
          if get_local_size (os_environ st) = 0
          then (Raise ZeroDivisionError,
                st\<lparr>trace := trace st @ [StoreGet s (unique_id_key ''bagua_inter_comm'' leader_rank)]\<rparr>)
          else if get_rank (os_environ st) mod get_local_size (os_environ st) \<noteq> leader_rank
          then (Return None,
                st\<lparr>trace := trace st @ [StoreGet s (unique_id_key ''bagua_inter_comm'' leader_rank)]\<rparr>)
          else ((if dist_is_initialized st
                 then Return (Some
                   \<lparr>comm_rank = get_rank (os_environ st) div get_local_size (os_environ st),
                    comm_nranks = get_world_size (os_environ st) div get_local_size (os_environ st),
                    comm_device_id = (case device_id of None \<Rightarrow> get_local_rank (os_environ st) | Some d \<Rightarrow> d),
                    stream_ptr = stream,
                    nccl_unique_id_str = idstr,
                    cuda_stream = stream\<rparr>)
                 else Raise RuntimeError),
             st\<lparr>trace := trace st @
                [StoreGet s (unique_id_key ''bagua_inter_comm'' leader_rank),
                 CommunicatorCreated
                   \<lparr>comm_rank = get_rank (os_environ st) div get_local_size (os_environ st),
                    comm_nranks = get_world_size (os_environ st) div get_local_size (os_environ st),
                    comm_device_id = (case device_id of None \<Rightarrow> get_local_rank (os_environ st) | Some d \<Rightarrow> d),
                    stream_ptr = stream,
                    nccl_unique_id_str = idstr,
                    cuda_stream = stream\<rparr>]\<rparr>))"
  by (simp add: init_bagua_inter_communicator_def Let_def gen_follower [OF assms]
        BaguaSingleCommunicatorPy_def emit_def dist_get_rank_def split: option.splits)

lemma inter_leader_effects:
  assumes "get_rank (os_environ st) = leader_rank"
  shows "\<exists>rest. trace (snd (init_bagua_inter_communicator stream leader_rank (Some s) device_id st)) =
           trace st @
           [UniqueIdGenerated (unique_ids st (ids_generated st)),
            StoreSet s (unique_id_key ''bagua_inter_comm'' leader_rank)
              (unique_ids st (ids_generated st))] @ rest"
    and "store_contents (snd (init_bagua_inter_communicator stream leader_rank (Some s) device_id st))
           s (unique_id_key ''bagua_inter_comm'' leader_rank) =
         Some (unique_ids st (ids_generated st))"
  by (simp_all add: init_bagua_inter_communicator_def Let_def gen_leader [OF assms]
        BaguaSingleCommunicatorPy_def emit_def dist_get_rank_def)

lemma inter_follower_effects:
  assumes "get_rank (os_environ st) \<noteq> leader_rank"
  shows "\<exists>rest. trace (snd (init_bagua_inter_communicator stream leader_rank (Some s) device_id st)) =
           trace st @ StoreGet s (unique_id_key ''bagua_inter_comm'' leader_rank) # rest"
    and "store_contents (snd (init_bagua_inter_communicator stream leader_rank (Some s) device_id st)) =
           store_contents st"
  by (simp_all add: inter_follower [OF assms] split: option.splits)

text \<open>
  C10: in \<open>init_bagua_inter_communicator\<close> every rank goes through the rendezvous before
  the membership test is evaluated, and no rank returns before the leader's identifier is
  published. The leader's call first generates the identifier and sets it under the key
  of \<open>bagua_inter_comm\<close>; the call of any other rank first issues the store's get for
  that key and changes nothing in the store. A rank other than the leader, member or
  not and whatever the local size, does not return while the identifier is unpublished:
  its call waits in that get (without end, or until the store's timeout raises). So after
  any call that returns, the identifier is in the store, and for a rank other than the
  leader it was there before; a rank that is not a member returns the absent communicator
  only after the get.
\<close>

theorem inter_bootstrap_waits_for_leader:
  "(get_rank (os_environ st) = leader_rank \<longrightarrow>
      (\<exists>rest. trace (snd (init_bagua_inter_communicator stream leader_rank (Some s) device_id st)) =
          trace st @
          [UniqueIdGenerated (unique_ids st (ids_generated st)),
           StoreSet s (''bagua_inter_comm-'' @ str_int leader_rank @ ''-unique_id'')
             (unique_ids st (ids_generated st))] @ rest) \<and>
      store_contents (snd (init_bagua_inter_communicator stream leader_rank (Some s) device_id st))
          s (''bagua_inter_comm-'' @ str_int leader_rank @ ''-unique_id'') =
        Some (unique_ids st (ids_generated st))) \<and>
   (get_rank (os_environ st) \<noteq> leader_rank \<longrightarrow>
      (\<exists>rest. trace (snd (init_bagua_inter_communicator stream leader_rank (Some s) device_id st)) =
          trace st @
          StoreGet s (''bagua_inter_comm-'' @ str_int leader_rank @ ''-unique_id'') # rest) \<and>
      store_contents (snd (init_bagua_inter_communicator stream leader_rank (Some s) device_id st)) =
        store_contents st) \<and>
   (get_rank (os_environ st) \<noteq> leader_rank \<and>
    store_contents st s (''bagua_inter_comm-'' @ str_int leader_rank @ ''-unique_id'') = None \<longrightarrow>
      init_bagua_inter_communicator stream leader_rank (Some s) device_id st =
        (if store_timeout st then Raise RuntimeError else Blocked,
         st\<lparr>trace := trace st @
              [StoreGet s (''bagua_inter_comm-'' @ str_int leader_rank @ ''-unique_id'')]\<rparr>)) \<and>
   (fst (init_bagua_inter_communicator stream leader_rank (Some s) device_id st) = Return out \<longrightarrow>
      store_contents (snd (init_bagua_inter_communicator stream leader_rank (Some s) device_id st))
          s (''bagua_inter_comm-'' @ str_int leader_rank @ ''-unique_id'') \<noteq> None \<and>
      (get_rank (os_environ st) = leader_rank \<or>
       store_contents st s (''bagua_inter_comm-'' @ str_int leader_rank @ ''-unique_id'') \<noteq> None)) \<and>
   (get_rank (os_environ st) \<noteq> leader_rank \<and>
    store_contents st s (''bagua_inter_comm-'' @ str_int leader_rank @ ''-unique_id'') = Some idstr \<and>
    get_local_size (os_environ st) \<noteq> 0 \<and>
    get_rank (os_environ st) mod get_local_size (os_environ st) \<noteq> leader_rank \<longrightarrow>
      init_bagua_inter_communicator stream leader_rank (Some s) device_id st =
        (Return None,
         st\<lparr>trace := trace st @
              [StoreGet s (''bagua_inter_comm-'' @ str_int leader_rank @ ''-unique_id'')]\<rparr>))"
proof -
  have key: "''bagua_inter_comm-'' @ str_int leader_rank @ ''-unique_id'' =
      unique_id_key ''bagua_inter_comm'' leader_rank"
    by (simp add: unique_id_key_def)
  show ?thesis
  proof (cases "get_rank (os_environ st) = leader_rank")
    case True
    show ?thesis
      unfolding key
      using True inter_leader_effects [OF True, of stream s device_id] by simp
  next
    case False
    have unpublished:
      "store_contents st s (unique_id_key ''bagua_inter_comm'' leader_rank) = None \<Longrightarrow>
         init_bagua_inter_communicator stream leader_rank (Some s) device_id st =
           (if store_timeout st then Raise RuntimeError else Blocked,
            st\<lparr>trace := trace st @
                 [StoreGet s (unique_id_key ''bagua_inter_comm'' leader_rank)]\<rparr>)"
      by (simp add: inter_follower [OF False])
    have returned:
      "fst (init_bagua_inter_communicator stream leader_rank (Some s) device_id st) = Return out \<Longrightarrow>
         store_contents st s (unique_id_key ''bagua_inter_comm'' leader_rank) \<noteq> None"
      by (auto simp: inter_follower [OF False] split: option.splits if_splits)
    have nonmember:
      "store_contents st s (unique_id_key ''bagua_inter_comm'' leader_rank) = Some idstr \<Longrightarrow>
       get_local_size (os_environ st) \<noteq> 0 \<Longrightarrow>
       get_rank (os_environ st) mod get_local_size (os_environ st) \<noteq> leader_rank \<Longrightarrow>
         init_bagua_inter_communicator stream leader_rank (Some s) device_id st =
           (Return None,
            st\<lparr>trace := trace st @
                 [StoreGet s (unique_id_key ''bagua_inter_comm'' leader_rank)]\<rparr>)"
      by (simp add: inter_follower [OF False])
    show ?thesis
      unfolding key
      using False inter_follower_effects [OF False, of stream s device_id]
        unpublished returned nonmember
      by simp
  qed
qed

theorem inter_bootstrap_waits_for_leader_witness:
  "get_rank (os_environ (fresh_process (rank_env 4 2 0) Map.empty)) = 0 \<and>
   trace (snd (init_bagua_inter_communicator 1 0 (Some DefaultStore) None
          (fresh_process (rank_env 4 2 0) Map.empty))) =
     [UniqueIdGenerated ''uid0'', StoreSet DefaultStore ''bagua_inter_comm-0-unique_id'' ''uid0'',
      CommunicatorCreated
        \<lparr>comm_rank = 0, comm_nranks = 2, comm_device_id = 0, stream_ptr = 1,
         nccl_unique_id_str = ''uid0'', cuda_stream = 1\<rparr>] \<and>
   store_contents (snd (init_bagua_inter_communicator 1 0 (Some DefaultStore) None
          (fresh_process (rank_env 4 2 0) Map.empty))) DefaultStore
       ''bagua_inter_comm-0-unique_id'' = Some ''uid0'' \<and>
   get_rank (os_environ (fresh_process (rank_env 4 2 1) Map.empty)) \<noteq> 0 \<and>
   store_contents (fresh_process (rank_env 4 2 1) Map.empty) DefaultStore
       ''bagua_inter_comm-0-unique_id'' = None \<and>
   fst (init_bagua_inter_communicator 1 0 (Some DefaultStore) None
          (fresh_process (rank_env 4 2 1) Map.empty)) = Blocked \<and>
   fst (init_bagua_inter_communicator 1 0 (Some DefaultStore) None
          (fresh_process (rank_env 4 2 2) Map.empty)) = Blocked \<and>
   fst (init_bagua_inter_communicator 1 0 (Some DefaultStore) None
          ((fresh_process (rank_env 4 2 1) Map.empty)\<lparr>store_timeout := True\<rparr>)) =
     Raise RuntimeError \<and>
   store_contents (fresh_process (rank_env 4 2 1) [''bagua_inter_comm-0-unique_id'' \<mapsto> ''uid0''])
       DefaultStore ''bagua_inter_comm-0-unique_id'' = Some ''uid0'' \<and>
   fst (init_bagua_inter_communicator 1 0 (Some DefaultStore) None
          (fresh_process (rank_env 4 2 1) [''bagua_inter_comm-0-unique_id'' \<mapsto> ''uid0''])) =
     Return None \<and>
   trace (snd (init_bagua_inter_communicator 1 0 (Some DefaultStore) None
          (fresh_process (rank_env 4 2 1) [''bagua_inter_comm-0-unique_id'' \<mapsto> ''uid0'']))) =
     [StoreGet DefaultStore ''bagua_inter_comm-0-unique_id'']"
proof -
  let ?kv = "[''bagua_inter_comm-0-unique_id'' \<mapsto> ''uid0'']"
  let ?t1 = "(fresh_process (rank_env 4 2 1) Map.empty)\<lparr>store_timeout := True\<rparr>"
  have uid: "unique_ids (fresh_process e kv) (ids_generated (fresh_process e kv)) = ''uid0''" for e kv
    by (simp add: fresh_process_def str_nat.simps)
  have to: "\<not> store_timeout (fresh_process e kv)" for e kv
    by (simp add: fresh_process_def)
  have l0: "trace (snd (init_bagua_inter_communicator 1 0 (Some DefaultStore) None
          (fresh_process (rank_env 4 2 0) Map.empty))) =
     [UniqueIdGenerated ''uid0'', StoreSet DefaultStore ''bagua_inter_comm-0-unique_id'' ''uid0'',
      CommunicatorCreated
        \<lparr>comm_rank = 0, comm_nranks = 2, comm_device_id = 0, stream_ptr = 1,
         nccl_unique_id_str = ''uid0'', cuda_stream = 1\<rparr>]"
    by (simp add: init_bagua_inter_communicator_def Let_def gen_leader fresh_process_env uid
          BaguaSingleCommunicatorPy_def emit_def dist_get_rank_def unique_id_key_def str_int_0,
        simp add: fresh_process_def rank_env_def get_local_rank_def)
  have s0: "store_contents (snd (init_bagua_inter_communicator 1 0 (Some DefaultStore) None
          (fresh_process (rank_env 4 2 0) Map.empty))) DefaultStore
       ''bagua_inter_comm-0-unique_id'' = Some ''uid0''"
    using inter_bootstrap_waits_for_leader
      [of "fresh_process (rank_env 4 2 0) Map.empty" 0 1 DefaultStore None None "''uid0''"]
    by (simp add: fresh_process_env str_int_0 uid)
  have b1: "fst (init_bagua_inter_communicator 1 0 (Some DefaultStore) None
          (fresh_process (rank_env 4 2 1) Map.empty)) = Blocked"
    using inter_bootstrap_waits_for_leader
      [of "fresh_process (rank_env 4 2 1) Map.empty" 0 1 DefaultStore None None "''uid0''"]
    by (simp add: fresh_process_env str_int_0 to)
  have b2: "fst (init_bagua_inter_communicator 1 0 (Some DefaultStore) None
          (fresh_process (rank_env 4 2 2) Map.empty)) = Blocked"
    using inter_bootstrap_waits_for_leader
      [of "fresh_process (rank_env 4 2 2) Map.empty" 0 1 DefaultStore None None "''uid0''"]
    by (simp add: fresh_process_env str_int_0 to)
  have b3: "fst (init_bagua_inter_communicator 1 0 (Some DefaultStore) None ?t1) =
      Raise RuntimeError"
    using inter_bootstrap_waits_for_leader [of ?t1 0 1 DefaultStore None None "''uid0''"]
    by (simp add: fresh_process_env str_int_0)
  have n1: "init_bagua_inter_communicator 1 0 (Some DefaultStore) None
          (fresh_process (rank_env 4 2 1) ?kv) =
        (Return None, (fresh_process (rank_env 4 2 1) ?kv)
           \<lparr>trace := [StoreGet DefaultStore ''bagua_inter_comm-0-unique_id'']\<rparr>)"
    using inter_bootstrap_waits_for_leader
      [of "fresh_process (rank_env 4 2 1) ?kv" 0 1 DefaultStore None None "''uid0''"]
    by (simp add: fresh_process_env str_int_0)
  show ?thesis
    using l0 s0 b1 b2 b3 n1 by (simp add: fresh_process_env)
qed

text \<open>
  C2: with leader rank 0 and a local size \<open>L\<close> other than zero, in a process whose
  default process group is initialised, once the rendezvous can complete (the rank is the
  leader, or the leader's identifier is published), the inter-node bootstrap of global
  rank \<open>r\<close> in a world of size \<open>W\<close> returns the absent communicator exactly when
  \<open>r mod L\<close> is not zero, and otherwise a communicator of rank \<open>r div L\<close> and size
  \<open>W div L\<close>. With \<open>W = 4\<close> and \<open>L = 2\<close>, ranks 0 and 2 are the members and
  ranks 1 and 3 get the absent communicator.
\<close>

theorem inter_communicator_membership:
  assumes "get_local_size (os_environ st) \<noteq> 0"
    and "get_rank (os_environ st) = 0 \<or>
         store_contents st s ''bagua_inter_comm-0-unique_id'' \<noteq> None"
    and "dist_is_initialized st"
  shows
    "(get_rank (os_environ st) mod get_local_size (os_environ st) \<noteq> 0 \<longrightarrow>
        fst (init_bagua_inter_communicator stream 0 (Some s) device_id st) = Return None) \<and>
     (get_rank (os_environ st) mod get_local_size (os_environ st) = 0 \<longrightarrow>
        (\<exists>c. fst (init_bagua_inter_communicator stream 0 (Some s) device_id st) = Return (Some c) \<and>
             comm_rank c = get_rank (os_environ st) div get_local_size (os_environ st) \<and>
             comm_nranks c = get_world_size (os_environ st) div get_local_size (os_environ st)))"
proof -
  have key: "unique_id_key ''bagua_inter_comm'' 0 = ''bagua_inter_comm-0-unique_id''"
    by (simp add: unique_id_key_def str_int_0)
  show ?thesis
  proof (cases "get_rank (os_environ st) = 0")
    case True
    show ?thesis
      using assms(1,3) by (simp add: inter_leader [OF True])
  next
    case False
    then obtain idstr where
      "store_contents st s (unique_id_key ''bagua_inter_comm'' 0) = Some idstr"
      using assms(2) key by auto
    then show ?thesis
      using assms(1,3) by (simp add: inter_follower [OF False])
  qed
qed

theorem inter_communicator_membership_witness:
  "get_local_size (os_environ (dist_process (rank_env 4 2 0) Map.empty)) \<noteq> 0 \<and>
   dist_is_initialized (dist_process (rank_env 4 2 0) Map.empty) \<and>
   get_rank (os_environ (dist_process (rank_env 4 2 0) Map.empty)) = 0 \<and>
   (\<exists>c. fst (init_bagua_inter_communicator 1 0 (Some DefaultStore) None
                (dist_process (rank_env 4 2 0) Map.empty)) = Return (Some c) \<and>
        comm_rank c = 0 \<and> comm_nranks c = 2) \<and>
   store_contents (dist_process (rank_env 4 2 1) [''bagua_inter_comm-0-unique_id'' \<mapsto> ''uid0''])
       DefaultStore ''bagua_inter_comm-0-unique_id'' \<noteq> None \<and>
   fst (init_bagua_inter_communicator 1 0 (Some DefaultStore) None
          (dist_process (rank_env 4 2 1) [''bagua_inter_comm-0-unique_id'' \<mapsto> ''uid0''])) =
     Return None \<and>
   (\<exists>c. fst (init_bagua_inter_communicator 1 0 (Some DefaultStore) None
                (dist_process (rank_env 4 2 2) [''bagua_inter_comm-0-unique_id'' \<mapsto> ''uid0''])) =
          Return (Some c) \<and>
        comm_rank c = 1 \<and> comm_nranks c = 2) \<and>
   fst (init_bagua_inter_communicator 1 0 (Some DefaultStore) None
          (dist_process (rank_env 4 2 3) [''bagua_inter_comm-0-unique_id'' \<mapsto> ''uid0''])) =
     Return None"
proof -
  let ?kv = "[''bagua_inter_comm-0-unique_id'' \<mapsto> ''uid0'']"
  have r0: "\<exists>c. fst (init_bagua_inter_communicator 1 0 (Some DefaultStore) None
                (dist_process (rank_env 4 2 0) Map.empty)) = Return (Some c) \<and>
        comm_rank c = 0 \<and> comm_nranks c = 2"
    using inter_communicator_membership
      [of "dist_process (rank_env 4 2 0) Map.empty" DefaultStore 1 None]
    by (simp add: dist_process_env)
  have r1: "fst (init_bagua_inter_communicator 1 0 (Some DefaultStore) None
          (dist_process (rank_env 4 2 1) ?kv)) = Return None"
    using inter_communicator_membership
      [of "dist_process (rank_env 4 2 1) ?kv" DefaultStore 1 None]
    by (simp add: dist_process_env)
  have r2: "\<exists>c. fst (init_bagua_inter_communicator 1 0 (Some DefaultStore) None
                (dist_process (rank_env 4 2 2) ?kv)) = Return (Some c) \<and>
        comm_rank c = 1 \<and> comm_nranks c = 2"
    using inter_communicator_membership
      [of "dist_process (rank_env 4 2 2) ?kv" DefaultStore 1 None]
    by (simp add: dist_process_env)
  have r3: "fst (init_bagua_inter_communicator 1 0 (Some DefaultStore) None
          (dist_process (rank_env 4 2 3) ?kv)) = Return None"
    using inter_communicator_membership
      [of "dist_process (rank_env 4 2 3) ?kv" DefaultStore 1 None]
    by (simp add: dist_process_env)
  show ?thesis
    using r0 r1 r2 r3 by (simp add: dist_process_env)
qed

section \<open>A failed initialisation\<close>

lemma gen_global_state:
  "gen_nccl_unique_id comm_type root_rank store st = (res, st') \<Longrightarrow>
     global_state st' = global_state st"
  by (auto simp: gen_nccl_unique_id_def Let_def emit_def split: option.splits sum.splits if_splits)

lemma inter_global_state:
  "init_bagua_inter_communicator stream leader_rank store device_id st = (res, st') \<Longrightarrow>
     global_state st' = global_state st"
  by (auto simp: init_bagua_inter_communicator_def Let_def BaguaSingleCommunicatorPy_def
        split: prod.splits result.splits sum.splits if_splits dest!: gen_global_state)

lemma intra_global_state:
  "init_bagua_intra_communicator stream store device_id st = (res, st') \<Longrightarrow>
     global_state st' = global_state st"
  by (auto simp: init_bagua_intra_communicator_def Let_def BaguaSingleCommunicatorPy_def
        split: prod.splits result.splits sum.splits if_splits dest!: gen_global_state)

lemma global_global_state:
  "init_bagua_communicator stream store device_id st = (res, st') \<Longrightarrow>
     global_state st' = global_state st"
  by (auto simp: init_bagua_communicator_def Let_def BaguaSingleCommunicatorPy_def
        split: prod.splits result.splits sum.splits if_splits dest!: gen_global_state)

lemma state_init_global_state:
  "BaguaGlobalState_init store device_id st = (res, st') \<Longrightarrow>
     global_state st' = global_state st"
  by (auto simp: BaguaGlobalState_init_def Let_def
        split: prod.splits result.splits
        dest!: inter_global_state intra_global_state global_global_state)

lemma init_process_group_not_returned:
  assumes "init_process_group init_method device_id st = (res, st')" "res \<noteq> Return ()"
  shows "global_state st' = global_state st"
  using assms
  by (auto simp: init_process_group_def Let_def get_default_store_def
        split: if_splits list.splits prod.splits result.splits sum.splits
        dest!: state_init_global_state)

lemma split_acc_not_Nil: "split_acc sep acc s \<noteq> []"
  by (induction sep acc s rule: split_acc.induct) simp_all

lemma split_http: "split_str ''http://host'' ''://'' = [''http'', ''host'']"
  by (simp add: split_str_def)

lemma split_file: "split_str ''file:///tmp/rdzv'' ''://'' = [''file'', ''/tmp/rdzv'']"
  by (simp add: split_str_def)

lemma init_zero_local_size:
  "fst (init_process_group ''file:///tmp/rdzv'' None (fresh_process (rank_env 4 0 0) Map.empty)) =
     Raise ZeroDivisionError"
  by (simp add: init_process_group_def is_initialized_def split_file BaguaGlobalState_init_def
        Let_def init_bagua_inter_communicator_def gen_nccl_unique_id_def emit_def
        fresh_process_def rank_env_def get_rank_def get_local_size_def get_world_size_def
        get_local_rank_def)

text \<open>
  C9, amended: when \<open>init_process_group\<close> raises, for whatever reason, it has not
  assigned the global state, which is what it was before the call; so
  \<open>is_initialized\<close> answers after the call what it answered before: false after a
  failed first attempt (an illegal scheme raises ValueError with the state untouched, a
  failure inside the construction of the state object leaves the global state absent),
  and true after a rejected repeated initialisation.
\<close>

theorem failed_init_keeps_global_state:
  "(fst (init_process_group init_method device_id st) = Raise err \<longrightarrow>
      global_state (snd (init_process_group init_method device_id st)) = global_state st \<and>
      is_initialized (snd (init_process_group init_method device_id st)) = is_initialized st) \<and>
   (\<not> is_initialized st \<and> fst (init_process_group init_method device_id st) = Raise err \<longrightarrow>
      \<not> is_initialized (snd (init_process_group init_method device_id st))) \<and>
   (\<not> is_initialized st \<and> hd (split_str init_method ''://'') \<notin> set [''dist'', ''file''] \<longrightarrow>
      init_process_group init_method device_id st = (Raise ValueError, st))"
proof -
  obtain res st' where r: "init_process_group init_method device_id st = (res, st')"
    by (cases "init_process_group init_method device_id st")
  have keep: "res = Raise err \<Longrightarrow> global_state st' = global_state st"
    using init_process_group_not_returned [OF r] by simp
  have bad: "\<not> is_initialized st \<and> hd (split_str init_method ''://'') \<notin> set [''dist'', ''file''] \<longrightarrow>
      init_process_group init_method device_id st = (Raise ValueError, st)"
    by (cases "split_str init_method ''://''")
       (simp_all add: init_process_group_def split_str_def split_acc_not_Nil)
  show ?thesis
    using keep bad by (simp add: r is_initialized_def)
qed

theorem failed_init_keeps_global_state_witness:
  "fst (init_process_group ''dist://'' None (initialized_process 4 0)) =
     Raise RepeatedInitializationError \<and>
   global_state (snd (init_process_group ''dist://'' None (initialized_process 4 0))) =
     global_state (initialized_process 4 0) \<and>
   \<not> is_initialized (fresh_process (rank_env 4 2 0) Map.empty) \<and>
   hd (split_str ''http://host'' ''://'') \<notin> set [''dist'', ''file''] \<and>
   init_process_group ''http://host'' None (fresh_process (rank_env 4 2 0) Map.empty) =
     (Raise ValueError, fresh_process (rank_env 4 2 0) Map.empty) \<and>
   \<not> is_initialized (fresh_process (rank_env 4 0 0) Map.empty) \<and>
   fst (init_process_group ''file:///tmp/rdzv'' None (fresh_process (rank_env 4 0 0) Map.empty)) =
     Raise ZeroDivisionError \<and>
   \<not> is_initialized
       (snd (init_process_group ''file:///tmp/rdzv'' None (fresh_process (rank_env 4 0 0) Map.empty)))"
proof -
  have a: "fst (init_process_group ''dist://'' None (initialized_process 4 0)) =
     Raise RepeatedInitializationError"
    by (simp add: init_process_group_def is_initialized_def initialized_process_def)
  have n: "\<not> is_initialized (fresh_process (rank_env W L r) Map.empty)" for W L r
    by (simp add: is_initialized_def fresh_process_def)
  have b: "hd (split_str ''http://host'' ''://'') \<notin> set [''dist'', ''file'']"
    by (simp add: split_http)
  show ?thesis
    using a b n [of 4 2 0] n [of 4 0 0] init_zero_local_size
      failed_init_keeps_global_state [of "''dist://''" None "initialized_process 4 0"
        RepeatedInitializationError]
      failed_init_keeps_global_state [of "''http://host''" None
        "fresh_process (rank_env 4 2 0) Map.empty" ValueError]
      failed_init_keeps_global_state [of "''file:///tmp/rdzv''" None
        "fresh_process (rank_env 4 0 0) Map.empty" ZeroDivisionError]
    by simp
qed

text \<open>
  The claim as stated fails for the repeated initialisation: the call raises and
  \<open>is_initialized\<close> is true afterwards.
\<close>

theorem repeated_init_stays_initialized:
  "fst (init_process_group ''dist://'' None (initialized_process 4 0)) =
     Raise RepeatedInitializationError \<and>
   is_initialized (snd (init_process_group ''dist://'' None (initialized_process 4 0)))"
  by (simp add: init_process_group_def is_initialized_def initialized_process_def)

section \<open>World size and local size\<close>

lemma gen_returns:
  assumes "get_rank (os_environ st) = root_rank \<or>
           store_contents st s (unique_id_key comm_type root_rank) \<noteq> None"
  shows "\<exists>idstr st'. gen_nccl_unique_id comm_type root_rank (Some s) st = (Return idstr, st') \<and>
           os_environ st' = os_environ st \<and>
           dist_is_initialized st' = dist_is_initialized st \<and>
           dom (store_contents st s) \<subseteq> dom (store_contents st' s)"
proof (cases "get_rank (os_environ st) = root_rank")
  case True
  show ?thesis
    by (auto simp: gen_leader [OF True])
next
  case False
  then obtain idstr where "store_contents st s (unique_id_key comm_type root_rank) = Some idstr"
    using assms by auto
  then show ?thesis
    by (simp add: gen_follower [OF False])
qed

lemma inter_returns:
  assumes "dist_is_initialized st"
    and "get_local_size (os_environ st) \<noteq> 0"
    and "get_rank (os_environ st) = 0 \<or>
         store_contents st s (unique_id_key ''bagua_inter_comm'' 0) \<noteq> None"
  shows "\<exists>res st'. init_bagua_inter_communicator stream 0 (Some s) device_id st = (Return res, st') \<and>
           os_environ st' = os_environ st \<and>
           dist_is_initialized st' \<and>
           dom (store_contents st s) \<subseteq> dom (store_contents st' s) \<and>
           (get_rank (os_environ st) mod get_local_size (os_environ st) \<noteq> 0 \<longrightarrow> res = None) \<and>
           (get_rank (os_environ st) mod get_local_size (os_environ st) = 0 \<longrightarrow>
              (\<exists>c. res = Some c \<and>
                   comm_nranks c = get_world_size (os_environ st) div get_local_size (os_environ st)))"
proof -
  obtain idstr st1 where g: "gen_nccl_unique_id ''bagua_inter_comm'' 0 (Some s) st = (Return idstr, st1)"
    and e: "os_environ st1 = os_environ st"
    and di: "dist_is_initialized st1 = dist_is_initialized st"
    and d: "dom (store_contents st s) \<subseteq> dom (store_contents st1 s)"
    using gen_returns [OF assms(3)] by blast
  show ?thesis
    using assms(1,2) e di d
    by (simp add: init_bagua_inter_communicator_def Let_def g BaguaSingleCommunicatorPy_def
          dist_get_rank_def)
qed

lemma intra_returns:
  assumes "dist_is_initialized st"
    and "get_local_size (os_environ st) \<noteq> 0"
    and "get_rank (os_environ st) =
           get_rank (os_environ st) div get_local_size (os_environ st) * get_local_size (os_environ st) \<or>
         store_contents st s (unique_id_key ''bagua_intra_comm''
           (get_rank (os_environ st) div get_local_size (os_environ st) * get_local_size (os_environ st)))
           \<noteq> None"
  shows "\<exists>c st'. init_bagua_intra_communicator stream (Some s) device_id st = (Return c, st') \<and>
           os_environ st' = os_environ st \<and>
           dist_is_initialized st' \<and>
           dom (store_contents st s) \<subseteq> dom (store_contents st' s) \<and>
           comm_nranks c = get_local_size (os_environ st)"
proof -
  obtain idstr st1 where g: "gen_nccl_unique_id ''bagua_intra_comm''
        (get_rank (os_environ st) div get_local_size (os_environ st) * get_local_size (os_environ st))
        (Some s) st = (Return idstr, st1)"
    and e: "os_environ st1 = os_environ st"
    and di: "dist_is_initialized st1 = dist_is_initialized st"
    and d: "dom (store_contents st s) \<subseteq> dom (store_contents st1 s)"
    using gen_returns [OF assms(3)] by blast
  show ?thesis
    using assms(1,2) e di d
    by (simp add: init_bagua_intra_communicator_def Let_def g BaguaSingleCommunicatorPy_def
          dist_get_rank_def)
qed

lemma global_returns:
  assumes "dist_is_initialized st"
    and "get_rank (os_environ st) = 0 \<or>
         store_contents st s (unique_id_key ''bagua_global_comm'' 0) \<noteq> None"
  shows "\<exists>c st'. init_bagua_communicator stream (Some s) device_id st = (Return c, st') \<and>
           os_environ st' = os_environ st \<and>
           dist_is_initialized st' \<and>
           dom (store_contents st s) \<subseteq> dom (store_contents st' s) \<and>
           comm_nranks c = get_world_size (os_environ st)"
proof -
  obtain idstr st1 where g: "gen_nccl_unique_id ''bagua_global_comm'' 0 (Some s) st = (Return idstr, st1)"
    and e: "os_environ st1 = os_environ st"
    and di: "dist_is_initialized st1 = dist_is_initialized st"
    and d: "dom (store_contents st s) \<subseteq> dom (store_contents st1 s)"
    using gen_returns [OF assms(2)] by blast
  show ?thesis
    using assms(1) e di d
    by (simp add: init_bagua_communicator_def Let_def g BaguaSingleCommunicatorPy_def
          dist_get_rank_def)
qed

lemma state_init_returns:
  assumes di: "dist_is_initialized st"
    and L: "get_local_size (os_environ st) \<noteq> 0"
    and h1: "get_rank (os_environ st) = 0 \<or>
         store_contents st s (unique_id_key ''bagua_inter_comm'' 0) \<noteq> None"
    and h2: "get_rank (os_environ st) =
           get_rank (os_environ st) div get_local_size (os_environ st) * get_local_size (os_environ st) \<or>
         store_contents st s (unique_id_key ''bagua_intra_comm''
           (get_rank (os_environ st) div get_local_size (os_environ st) * get_local_size (os_environ st)))
           \<noteq> None"
    and h3: "get_rank (os_environ st) = 0 \<or>
         store_contents st s (unique_id_key ''bagua_global_comm'' 0) \<noteq> None"
  shows "\<exists>gs st'. BaguaGlobalState_init (Some s) device_id st = (Return gs, st') \<and>
           comm_nranks (global_communicator gs) = get_world_size (os_environ st) \<and>
           comm_nranks (intranode_communicator gs) = get_local_size (os_environ st) \<and>
           (get_rank (os_environ st) mod get_local_size (os_environ st) \<noteq> 0 \<longrightarrow>
              internode_communicator gs = None) \<and>
           (get_rank (os_environ st) mod get_local_size (os_environ st) = 0 \<longrightarrow>
              (\<exists>c. internode_communicator gs = Some c \<and>
                   comm_nranks c = get_world_size (os_environ st) div get_local_size (os_environ st)))"
proof -
  define d where "d = (case device_id of None \<Rightarrow> get_local_rank (os_environ st) | Some d \<Rightarrow> d)"
  define stream where "stream = Suc (streams_created (emit [BackendCreated 100 d] st))"
  define st3 where "st3 =
    emit [AutotuneClientCreated (get_autotune_server_addr (os_environ st))]
      (emit [StreamCreated stream]
         ((emit [BackendCreated 100 d] st)\<lparr>streams_created := stream\<rparr>))"
  have unfold: "BaguaGlobalState_init (Some s) device_id st =
      (case init_bagua_inter_communicator stream 0 (Some s) (Some d) st3 of
         (Raise err, st4) \<Rightarrow> (Raise err, st4)
       | (Blocked, st4) \<Rightarrow> (Blocked, st4)
       | (Return internode, st4) \<Rightarrow>
           (case init_bagua_intra_communicator stream (Some s) (Some d) st4 of
              (Raise err, st5) \<Rightarrow> (Raise err, st5)
            | (Blocked, st5) \<Rightarrow> (Blocked, st5)
            | (Return intranode, st5) \<Rightarrow>
                (case init_bagua_communicator stream (Some s) (Some d) st5 of
                   (Raise err, st6) \<Rightarrow> (Raise err, st6)
                 | (Blocked, st6) \<Rightarrow> (Blocked, st6)
                 | (Return glob, st6) \<Rightarrow>
                     (Return \<lparr>gs_backend = \<lparr>schedule_channel_cap = 100, backend_device_id = d\<rparr>,
                              gs_stream = stream, gs_store = Some s,
                              hyperparameters_service_client = get_autotune_server_addr (os_environ st),
                              internode_communicator = internode,
                              intranode_communicator = intranode,
                              global_communicator = glob\<rparr>, st6))))"
    unfolding BaguaGlobalState_init_def Let_def d_def stream_def st3_def by (rule refl)
  have e3: "os_environ st3 = os_environ st" and s3: "store_contents st3 = store_contents st"
    and di3: "dist_is_initialized st3"
    using di by (simp_all add: st3_def)
  have "\<exists>res st'. init_bagua_inter_communicator stream 0 (Some s) (Some d) st3 = (Return res, st') \<and>
      os_environ st' = os_environ st \<and> dist_is_initialized st' \<and>
      dom (store_contents st s) \<subseteq> dom (store_contents st' s) \<and>
      (get_rank (os_environ st) mod get_local_size (os_environ st) \<noteq> 0 \<longrightarrow> res = None) \<and>
      (get_rank (os_environ st) mod get_local_size (os_environ st) = 0 \<longrightarrow>
         (\<exists>c. res = Some c \<and>
            comm_nranks c = get_world_size (os_environ st) div get_local_size (os_environ st)))"
    using inter_returns [OF di3, of s stream "Some d"] L h1 by (simp add: e3 s3)
  then obtain res4 st4 where
    i4: "init_bagua_inter_communicator stream 0 (Some s) (Some d) st3 = (Return res4, st4)"
    and e4: "os_environ st4 = os_environ st"
    and di4: "dist_is_initialized st4"
    and d4: "dom (store_contents st s) \<subseteq> dom (store_contents st4 s)"
    and r4: "get_rank (os_environ st) mod get_local_size (os_environ st) \<noteq> 0 \<longrightarrow> res4 = None"
      "get_rank (os_environ st) mod get_local_size (os_environ st) = 0 \<longrightarrow>
         (\<exists>c. res4 = Some c \<and>
            comm_nranks c = get_world_size (os_environ st) div get_local_size (os_environ st))"
    by (elim exE conjE)
  have h2': "get_rank (os_environ st) =
           get_rank (os_environ st) div get_local_size (os_environ st) * get_local_size (os_environ st) \<or>
         store_contents st4 s (unique_id_key ''bagua_intra_comm''
           (get_rank (os_environ st) div get_local_size (os_environ st) * get_local_size (os_environ st)))
           \<noteq> None"
    using h2 d4 by (auto simp: dom_def)
  have "\<exists>c st'. init_bagua_intra_communicator stream (Some s) (Some d) st4 = (Return c, st') \<and>
      os_environ st' = os_environ st \<and> dist_is_initialized st' \<and>
      dom (store_contents st4 s) \<subseteq> dom (store_contents st' s) \<and>
      comm_nranks c = get_local_size (os_environ st)"
    using intra_returns [OF di4, of s stream "Some d"] L h2' by (simp add: e4)
  then obtain c5 st5 where
    i5: "init_bagua_intra_communicator stream (Some s) (Some d) st4 = (Return c5, st5)"
    and e5: "os_environ st5 = os_environ st"
    and di5: "dist_is_initialized st5"
    and d5: "dom (store_contents st4 s) \<subseteq> dom (store_contents st5 s)"
    and r5: "comm_nranks c5 = get_local_size (os_environ st)"
    by (elim exE conjE)
  have h3': "get_rank (os_environ st) = 0 \<or>
         store_contents st5 s (unique_id_key ''bagua_global_comm'' 0) \<noteq> None"
    using h3 d4 d5 by (auto simp: dom_def)
  have "\<exists>c st'. init_bagua_communicator stream (Some s) (Some d) st5 = (Return c, st') \<and>
      comm_nranks c = get_world_size (os_environ st)"
    using global_returns [OF di5, of s stream "Some d"] h3' by (auto simp: e5)
  then obtain c6 st6 where
    i6: "init_bagua_communicator stream (Some s) (Some d) st5 = (Return c6, st6)"
    and r6: "comm_nranks c6 = get_world_size (os_environ st)"
    by (elim exE conjE)
  show ?thesis
    using r4 r5 r6 by (simp add: unfold i4 i5 i6)
qed

lemma init_process_group_returns:
  assumes ni: "\<not> is_initialized st"
    and sp: "split_str init_method ''://'' = m0 # rest"
    and scheme: "m0 = ''dist'' \<or> m0 = ''file'' \<and> rest \<noteq> [] \<and> dist_is_initialized st"
    and s: "s = (if m0 = ''file'' then FileStore (hd rest) (get_world_size (os_environ st))
                 else DefaultStore)"
    and L: "get_local_size (os_environ st) \<noteq> 0"
    and h1: "get_rank (os_environ st) = 0 \<or>
         store_contents st s (unique_id_key ''bagua_inter_comm'' 0) \<noteq> None"
    and h2: "get_rank (os_environ st) =
           get_rank (os_environ st) div get_local_size (os_environ st) * get_local_size (os_environ st) \<or>
         store_contents st s (unique_id_key ''bagua_intra_comm''
           (get_rank (os_environ st) div get_local_size (os_environ st) * get_local_size (os_environ st)))
           \<noteq> None"
    and h3: "get_rank (os_environ st) = 0 \<or>
         store_contents st s (unique_id_key ''bagua_global_comm'' 0) \<noteq> None"
  shows "\<exists>gs. fst (init_process_group init_method device_id st) = Return () \<and>
           global_state (snd (init_process_group init_method device_id st)) = Some gs \<and>
           comm_nranks (global_communicator gs) = get_world_size (os_environ st) \<and>
           comm_nranks (intranode_communicator gs) = get_local_size (os_environ st) \<and>
           (get_rank (os_environ st) mod get_local_size (os_environ st) \<noteq> 0 \<longrightarrow>
              internode_communicator gs = None) \<and>
           (get_rank (os_environ st) mod get_local_size (os_environ st) = 0 \<longrightarrow>
              (\<exists>c. internode_communicator gs = Some c \<and>
                   comm_nranks c = get_world_size (os_environ st) div get_local_size (os_environ st)))"
proof -
  define st1 where "st1 =
    (if m0 = ''file'' then emit [FileStoreCreated (hd rest) (get_world_size (os_environ st))] st
     else if \<not> dist_is_initialized st
     then emit [DistInitProcessGroup] (st\<lparr>dist_is_initialized := True\<rparr>)
     else st)"
  have e1: "os_environ st1 = os_environ st" and s1: "store_contents st1 = store_contents st"
    by (simp_all add: st1_def)
  have di1: "dist_is_initialized st1"
    using scheme by (auto simp: st1_def)
  have "\<exists>gs st'. BaguaGlobalState_init (Some s) device_id st1 = (Return gs, st') \<and>
      comm_nranks (global_communicator gs) = get_world_size (os_environ st) \<and>
      comm_nranks (intranode_communicator gs) = get_local_size (os_environ st) \<and>
      (get_rank (os_environ st) mod get_local_size (os_environ st) \<noteq> 0 \<longrightarrow>
         internode_communicator gs = None) \<and>
      (get_rank (os_environ st) mod get_local_size (os_environ st) = 0 \<longrightarrow>
         (\<exists>c. internode_communicator gs = Some c \<and>
            comm_nranks c = get_world_size (os_environ st) div get_local_size (os_environ st)))"
    using state_init_returns [OF di1, of s device_id] L h1 h2 h3 by (simp add: e1 s1)
  then obtain gs st2 where
    i: "BaguaGlobalState_init (Some s) device_id st1 = (Return gs, st2)"
    and g: "comm_nranks (global_communicator gs) = get_world_size (os_environ st)"
      "comm_nranks (intranode_communicator gs) = get_local_size (os_environ st)"
      "get_rank (os_environ st) mod get_local_size (os_environ st) \<noteq> 0 \<longrightarrow>
         internode_communicator gs = None"
      "get_rank (os_environ st) mod get_local_size (os_environ st) = 0 \<longrightarrow>
         (\<exists>c. internode_communicator gs = Some c \<and>
            comm_nranks c = get_world_size (os_environ st) div get_local_size (os_environ st))"
    by (elim exE conjE)
  have "init_process_group init_method device_id st = (Return (), st2\<lparr>global_state := Some gs\<rparr>)"
  proof (cases "m0 = ''file''")
    case True
    then obtain m1 rest' where rest: "rest = m1 # rest'"
      using scheme by (cases rest) auto
    show ?thesis
      using i ni True
      by (simp add: init_process_group_def sp rest s st1_def)
  next
    case False
    then have m0: "m0 = ''dist''"
      using scheme by simp
    show ?thesis
      using i ni
      by (cases "dist_is_initialized st")
         (simp_all add: init_process_group_def sp m0 s st1_def get_default_store_def)
  qed
  then show ?thesis
    using g by simp
qed

lemma split_dist: "split_str ''dist://'' ''://'' = [''dist'', []]"
  by (simp add: split_str_def)

text \<open>
  C7, amended: initialisation does not test whether the world size is divisible by the
  local size. For a legal \<open>init_method\<close> (with the scheme \<open>file\<close>, in a process whose
  default process group is initialised already), a local size other than zero and a
  rendezvous that can complete (for each of the three identifiers, the rank is its leader
  or the identifier is published), \<open>init_process_group\<close> returns and sets the global
  state, whether or not the local size divides the world size: the global communicator
  has the world size, the intra-node communicator the local size, and the inter-node
  communicator, on the ranks that get one, the world size divided by the local size and
  rounded down.
\<close>

theorem init_succeeds_without_divisibility:
  assumes "\<not> is_initialized st"
    and "split_str init_method ''://'' = m0 # rest"
    and "m0 = ''dist'' \<or> m0 = ''file'' \<and> rest \<noteq> [] \<and> dist_is_initialized st"
    and "s = (if m0 = ''file'' then FileStore (hd rest) (get_world_size (os_environ st))
              else DefaultStore)"
    and "get_local_size (os_environ st) \<noteq> 0"
    and "get_rank (os_environ st) = 0 \<or>
         store_contents st s (unique_id_key ''bagua_inter_comm'' 0) \<noteq> None"
    and "get_rank (os_environ st) =
           get_rank (os_environ st) div get_local_size (os_environ st) * get_local_size (os_environ st) \<or>
         store_contents st s (unique_id_key ''bagua_intra_comm''
           (get_rank (os_environ st) div get_local_size (os_environ st) * get_local_size (os_environ st)))
           \<noteq> None"
    and "get_rank (os_environ st) = 0 \<or>
         store_contents st s (unique_id_key ''bagua_global_comm'' 0) \<noteq> None"
  shows "\<exists>gs. fst (init_process_group init_method device_id st) = Return () \<and>
           global_state (snd (init_process_group init_method device_id st)) = Some gs \<and>
           comm_nranks (global_communicator gs) = get_world_size (os_environ st) \<and>
           comm_nranks (intranode_communicator gs) = get_local_size (os_environ st) \<and>
           (get_rank (os_environ st) mod get_local_size (os_environ st) \<noteq> 0 \<longrightarrow>
              internode_communicator gs = None) \<and>
           (get_rank (os_environ st) mod get_local_size (os_environ st) = 0 \<longrightarrow>
              (\<exists>c. internode_communicator gs = Some c \<and>
                   comm_nranks c = get_world_size (os_environ st) div get_local_size (os_environ st)))"
  using assms by (rule init_process_group_returns)

theorem init_succeeds_without_divisibility_witness:
  "\<not> is_initialized (fresh_process (rank_env 3 2 0) Map.empty) \<and>
   split_str ''dist://'' ''://'' = [''dist'', []] \<and>
   get_local_size (os_environ (fresh_process (rank_env 3 2 0) Map.empty)) = 2 \<and>
   get_world_size (os_environ (fresh_process (rank_env 3 2 0) Map.empty)) = 3 \<and>
   get_rank (os_environ (fresh_process (rank_env 3 2 0) Map.empty)) = 0 \<and>
   (\<exists>gs. fst (init_process_group ''dist://'' None
                 (fresh_process (rank_env 3 2 0) Map.empty)) = Return () \<and>
         global_state (snd (init_process_group ''dist://'' None
                 (fresh_process (rank_env 3 2 0) Map.empty))) = Some gs \<and>
         comm_nranks (global_communicator gs) = 3 \<and>
         comm_nranks (intranode_communicator gs) = 2 \<and>
         (\<exists>c. internode_communicator gs = Some c \<and> comm_nranks c = 1))"
proof -
  let ?st = "fresh_process (rank_env 3 2 0) Map.empty"
  have ni: "\<not> is_initialized ?st"
    by (simp add: is_initialized_def fresh_process_def)
  show ?thesis
    using ni split_dist
      init_succeeds_without_divisibility [OF ni split_dist, of DefaultStore None]
    by (simp add: fresh_process_env)
qed

text \<open>
  The claim as stated fails: with world size 3 and local size 2, rank 0 initialises
  without any error and holds its three communicators.
\<close>

theorem indivisible_world_size_not_reported:
  "get_world_size (os_environ (fresh_process (rank_env 3 2 0) Map.empty)) mod
     get_local_size (os_environ (fresh_process (rank_env 3 2 0) Map.empty)) \<noteq> 0 \<and>
   fst (init_process_group ''dist://'' None (fresh_process (rank_env 3 2 0) Map.empty)) =
     Return () \<and>
   is_initialized (snd (init_process_group ''dist://'' None
     (fresh_process (rank_env 3 2 0) Map.empty)))"
proof -
  let ?st = "fresh_process (rank_env 3 2 0) Map.empty"
  have ni: "\<not> is_initialized ?st"
    by (simp add: is_initialized_def fresh_process_def)
  show ?thesis
    using init_process_group_returns [OF ni split_dist, of DefaultStore None]
    by (auto simp: fresh_process_env is_initialized_def)
qed

end
